theory Spec2Isabelle
  imports Main "HOL-Library.Word"
begin

section \<open>Bytes, Python values and exceptions\<close>

text \<open>
  The development embeds \<^verbatim>\<open>alfanous/Support/whoosh/filedb/structfile.py\<close>: the class
  \<^verbatim>\<open>StructFile\<close>, a typed reader and writer over an open binary file handle, with a
  random-access view (\<^verbatim>\<open>self.map\<close>) that is either a real memory mapping or an object
  that emulates one by \<^verbatim>\<open>seek\<close> and \<^verbatim>\<open>read\<close>.

  A byte is an 8-bit word. Python's unbounded integers are \<open>int\<close>; lengths and absolute
  file offsets, which the code never makes negative, are \<open>nat\<close>.
\<close>

type_synonym byte = "8 word"

text \<open>
  The exceptions the code can raise. \<open>StructError\<close> is \<^verbatim>\<open>struct.error\<close>,
  \<open>UnsupportedOperation\<close> is \<^verbatim>\<open>io.UnsupportedOperation\<close>. \<open>IOError\<close> is
  the exception \<^verbatim>\<open>read_int\<close> raises on a short read; its arguments are the values the
  message interpolates: \<^verbatim>\<open>self._name\<close>, \<^verbatim>\<open>self.tell()\<close>, the bytes obtained, the expected
  byte count and the number of bytes obtained.
\<close>

datatype error =
    TypeError
  | ValueError
  | StructError
  | AttributeError
  | KeyError
  | IndexError
  | UnicodeEncodeError
  | UnsupportedOperation
  | IOError "string option" nat "byte list" nat nat

text \<open>
  The Python values that cross the interface. A \<^verbatim>\<open>str\<close> is its list of code points, a
  \<^verbatim>\<open>bytes\<close> object its list of bytes. A float that \<^verbatim>\<open>struct\<close> decodes from four bytes is
  identified with its IEEE binary32 bit pattern: the code only moves such patterns
  between the file and the caller, it never computes with them.
\<close>

datatype pyval =
    PyNone
  | PyInt int
  | PyFloat "32 word"
  | PyStr "nat list"
  | PyBytes "byte list"
  | PyTuple "pyval list"

type_synonym ('a, 's) outcome = "(error + 'a) \<times> 's"

text \<open>
  A statement that may raise, followed by the rest of the method: an exception skips
  the rest and keeps the state reached so far.
\<close>

definition bind_r :: "('a, 's) outcome \<Rightarrow> ('a \<Rightarrow> 's \<Rightarrow> ('b, 's) outcome) \<Rightarrow> ('b, 's) outcome" where
  "bind_r m k = (case m of (Inl e, s) \<Rightarrow> (Inl e, s) | (Inr a, s) \<Rightarrow> k a s)"

section \<open>The wrapped file handle\<close>

text \<open>
  The handle \<^verbatim>\<open>fileobj\<close> is the only stateful resource: a seekable binary stream with a
  cursor. Two byte strings describe the file. \<open>content\<close> is the file as the handle sees
  it, its own writes included; \<open>disk\<close> is the file itself, which is what \<^verbatim>\<open>os.fstat\<close>
  measures and what a memory mapping shows. They differ while written bytes wait in the
  handle's buffer. \<open>buffered\<close> says whether the handle has a buffer (Python's default) or
  passes every write on at once (\<^verbatim>\<open>buffering=0\<close>).

  \<open>mode\<close> is the \<^verbatim>\<open>mode\<close> attribute when the handle has one; \<open>has_fileno\<close> says whether
  \<^verbatim>\<open>fileno()\<close> gives a descriptor (it raises \<^verbatim>\<open>io.UnsupportedOperation\<close> on an in-memory
  or archive-member stream); \<open>has_flush\<close> and \<open>has_close\<close> say whether the handle has
  these methods (the code probes them with \<^verbatim>\<open>hasattr\<close>); \<open>flushed\<close> counts the calls of
  its \<^verbatim>\<open>flush\<close>.

  As Python's file objects do, a closed handle raises \<^verbatim>\<open>ValueError\<close> on every operation
  but \<^verbatim>\<open>close\<close>, a handle not opened for reading raises \<^verbatim>\<open>io.UnsupportedOperation\<close> on a
  read, and one not opened for writing on a write. The handle is taken to be seekable
  and not in append mode.
\<close>

record handle =
  content :: "byte list"
  disk :: "byte list"
  pos :: nat
  mode :: "string option"
  closed :: bool
  buffered :: bool
  has_fileno :: bool
  has_flush :: bool
  has_close :: bool
  flushed :: nat

definition readable :: "handle \<Rightarrow> bool" where
  \<comment> \<open>opened with \<^verbatim>\<open>r\<close> or with \<^verbatim>\<open>+\<close>; a stream without a mode, such as \<^verbatim>\<open>BytesIO\<close>,
      reads and writes\<close>
  "readable h =
     (case mode h of None \<Rightarrow> True | Some m \<Rightarrow> CHR ''r'' \<in> set m \<or> CHR ''+'' \<in> set m)"

definition writable :: "handle \<Rightarrow> bool" where
  \<comment> \<open>opened with \<^verbatim>\<open>w\<close>, \<^verbatim>\<open>a\<close>, \<^verbatim>\<open>x\<close> or with \<^verbatim>\<open>+\<close>\<close>
  "writable h =
     (case mode h of
        None \<Rightarrow> True
      | Some m \<Rightarrow> CHR ''w'' \<in> set m \<or> CHR ''a'' \<in> set m \<or> CHR ''x'' \<in> set m \<or> CHR ''+'' \<in> set m)"

definition drain :: "handle \<Rightarrow> handle" where
  \<comment> \<open>the buffer hands its pending bytes to the file\<close>
  "drain h = h\<lparr>disk := content h\<rparr>"

text \<open>
  A buffered handle keeps what is written until the next \<^verbatim>\<open>flush\<close>, \<^verbatim>\<open>close\<close>, \<^verbatim>\<open>seek\<close> or
  read of at least one byte. (Python also flushes when its buffer overflows, and does
  not flush on a seek or read that its read-ahead buffer can serve. No property below
  depends on when the buffer flushes: each speaks of the bytes that are pending, or
  not, in the state at hand.)
\<close>

definition fread :: "nat \<Rightarrow> handle \<Rightarrow> (byte list, handle) outcome" where
  \<comment> \<open>\<^verbatim>\<open>fileobj.read(n)\<close>: at most \<open>n\<close> bytes from the cursor, fewer at the end of the file.\<close>
  "fread n h =
     (if closed h then (Inl ValueError, h)
      else if \<not> readable h then (Inl UnsupportedOperation, h)
      else let d = take n (drop (pos h) (content h))
           in (Inr d, (if n = 0 then h else drain h)\<lparr>pos := pos h + length d\<rparr>))"

definition fread_all :: "handle \<Rightarrow> (byte list, handle) outcome" where
  \<comment> \<open>\<^verbatim>\<open>fileobj.read(n)\<close> with a negative \<open>n\<close>: everything from the cursor on.\<close>
  "fread_all h =
     (if closed h then (Inl ValueError, h)
      else if \<not> readable h then (Inl UnsupportedOperation, h)
      else let d = drop (pos h) (content h)
           in (Inr d, (drain h)\<lparr>pos := pos h + length d\<rparr>))"

definition fwrite :: "byte list \<Rightarrow> handle \<Rightarrow> (nat, handle) outcome" where
  \<comment> \<open>\<^verbatim>\<open>fileobj.write(bs)\<close>: overwrite from the cursor on, extending the file; a cursor
      beyond the end leaves a gap of zero bytes. Writing nothing changes nothing. The
      bytes reach the file itself at once only if the handle has no buffer.\<close>
  "fwrite bs h =
     (if closed h then (Inl ValueError, h)
      else if \<not> writable h then (Inl UnsupportedOperation, h)
      else if bs = [] then (Inr 0, h)
      else let c = content h; p = pos h;
               h' = h\<lparr>content := take p c @ replicate (p - length c) 0 @ bs @ drop (p + length bs) c,
                      pos := p + length bs\<rparr>
           in (Inr (length bs), if buffered h then h' else drain h'))"

definition fseek :: "nat \<Rightarrow> handle \<Rightarrow> (nat, handle) outcome" where
  \<comment> \<open>\<^verbatim>\<open>fileobj.seek(p)\<close>\<close>
  "fseek p h = (if closed h then (Inl ValueError, h) else (Inr p, (drain h)\<lparr>pos := p\<rparr>))"

definition fseek_cur :: "nat \<Rightarrow> handle \<Rightarrow> (nat, handle) outcome" where
  \<comment> \<open>\<^verbatim>\<open>fileobj.seek(l, 1)\<close>: relative to the cursor\<close>
  "fseek_cur l h =
     (if closed h then (Inl ValueError, h)
      else (Inr (pos h + l), (drain h)\<lparr>pos := pos h + l\<rparr>))"

definition ftell :: "handle \<Rightarrow> (nat, handle) outcome" where
  "ftell h = (if closed h then (Inl ValueError, h) else (Inr (pos h), h))"

definition fflush :: "handle \<Rightarrow> (unit, handle) outcome" where
  "fflush h =
     (if closed h then (Inl ValueError, h)
      else (Inr (), (drain h)\<lparr>flushed := flushed h + 1\<rparr>))"

definition fclose :: "handle \<Rightarrow> handle" where
  \<comment> \<open>\<^verbatim>\<open>fileobj.close()\<close> flushes and closes; closing a closed file does nothing\<close>
  "fclose h = (if closed h then h else (drain h)\<lparr>closed := True\<rparr>)"

section \<open>The struct formats\<close>

text \<open>
  \<^verbatim>\<open>Struct("!b")\<close>, \<^verbatim>\<open>"!H"\<close>, \<^verbatim>\<open>"!i"\<close>, \<^verbatim>\<open>"!I"\<close>, \<^verbatim>\<open>"!L"\<close> and \<^verbatim>\<open>"!f"\<close>: network byte order and
  standard sizes 1, 2, 4, 4, 4 and 4. \<^verbatim>\<open>unpack\<close> raises \<^verbatim>\<open>struct.error\<close> unless it is given
  exactly that many bytes, \<^verbatim>\<open>pack\<close> unless the number is in the format's range.
\<close>

definition be_nat :: "byte list \<Rightarrow> nat" where
  \<comment> \<open>the number a byte string denotes, most significant byte first\<close>
  "be_nat bs = foldl (\<lambda>a b. a * 256 + unat b) 0 bs"

definition be1 :: "nat \<Rightarrow> byte list" where
  "be1 v = [word_of_nat v]"

definition be2 :: "nat \<Rightarrow> byte list" where
  "be2 v = [word_of_nat (v div 256), word_of_nat v]"

definition be4 :: "nat \<Rightarrow> byte list" where
  "be4 v = [word_of_nat (v div 16777216), word_of_nat (v div 65536),
            word_of_nat (v div 256), word_of_nat v]"

definition unpack_sbyte :: "byte list \<Rightarrow> error + int" where
  "unpack_sbyte d =
     (if length d = 1 then Inr (sint (word_of_nat (be_nat d) :: 8 word)) else Inl StructError)"

definition unpack_ushort :: "byte list \<Rightarrow> error + int" where
  "unpack_ushort d = (if length d = 2 then Inr (int (be_nat d)) else Inl StructError)"

definition unpack_int :: "byte list \<Rightarrow> error + int" where
  "unpack_int d =
     (if length d = 4 then Inr (sint (word_of_nat (be_nat d) :: 32 word)) else Inl StructError)"

definition unpack_uint :: "byte list \<Rightarrow> error + int" where
  "unpack_uint d = (if length d = 4 then Inr (int (be_nat d)) else Inl StructError)"

definition unpack_ulong :: "byte list \<Rightarrow> error + int" where
  "unpack_ulong d = (if length d = 4 then Inr (int (be_nat d)) else Inl StructError)"

definition unpack_float :: "byte list \<Rightarrow> error + 32 word" where
  "unpack_float d =
     (if length d = 4 then Inr (word_of_nat (be_nat d)) else Inl StructError)"

definition pack_sbyte :: "int \<Rightarrow> error + byte list" where
  "pack_sbyte n =
     (if - 128 \<le> n \<and> n < 128 then Inr (be1 (nat (n mod 256))) else Inl StructError)"

definition pack_ushort :: "int \<Rightarrow> error + byte list" where
  "pack_ushort n = (if 0 \<le> n \<and> n < 65536 then Inr (be2 (nat n)) else Inl StructError)"

definition pack_int :: "int \<Rightarrow> error + byte list" where
  "pack_int n =
     (if - 2147483648 \<le> n \<and> n < 2147483648 then Inr (be4 (nat (n mod 4294967296)))
      else Inl StructError)"

definition pack_uint :: "int \<Rightarrow> error + byte list" where
  "pack_uint n = (if 0 \<le> n \<and> n < 4294967296 then Inr (be4 (nat n)) else Inl StructError)"

definition pack_ulong :: "int \<Rightarrow> error + byte list" where
  "pack_ulong n = (if 0 \<le> n \<and> n < 4294967296 then Inr (be4 (nat n)) else Inl StructError)"

definition pack_float :: "32 word \<Rightarrow> error + byte list" where
  "pack_float w = Inr (be4 (unat w))"

text \<open>
  Modelled from the spec: the constants \<^verbatim>\<open>_INT_SIZE\<close>, \<^verbatim>\<open>_USHORT_SIZE\<close>, \<^verbatim>\<open>_ULONG_SIZE\<close> and
  \<^verbatim>\<open>_FLOAT_SIZE\<close> of \<^verbatim>\<open>alfanous.Support.whoosh.system\<close>, which is not among the sources.
  The spec gives the sizes of the fixed-width forms as 1, 2, 4, 4, 4 and 4 bytes.
\<close>

definition INT_SIZE :: nat where "INT_SIZE = 4"
definition USHORT_SIZE :: nat where "USHORT_SIZE = 2"
definition ULONG_SIZE :: nat where "ULONG_SIZE = 4"
definition FLOAT_SIZE :: nat where "FLOAT_SIZE = 4"

subsection \<open>Packed arrays\<close>

text \<open>
  The type codes of \<^verbatim>\<open>_SIZEMAP\<close>, \<^verbatim>\<open>"bBiIhHlLf"\<close>. For any other type code
  \<^verbatim>\<open>_SIZEMAP[typecode]\<close> raises \<^verbatim>\<open>KeyError\<close> in \<^verbatim>\<open>read_array\<close> and in \<^verbatim>\<open>get_array\<close> alike,
  before the file or the map is touched; those codes are left out of the type.
\<close>

datatype typecode =
  Code_b | Code_B | Code_i | Code_I | Code_h | Code_H | Code_l | Code_L | Code_f

definition SIZEMAP :: "nat \<Rightarrow> typecode \<Rightarrow> nat" where
  \<comment> \<open>\<^verbatim>\<open>calcsize(typecode)\<close>, the native size; the first argument is the platform's
      size of a C \<^verbatim>\<open>long\<close>, the one size among these that differs between platforms\<close>
  "SIZEMAP long_size tc =
     (case tc of
        Code_b \<Rightarrow> 1 | Code_B \<Rightarrow> 1 | Code_i \<Rightarrow> 4 | Code_I \<Rightarrow> 4 | Code_h \<Rightarrow> 2 | Code_H \<Rightarrow> 2
      | Code_l \<Rightarrow> long_size | Code_L \<Rightarrow> long_size | Code_f \<Rightarrow> 4)"

definition std_size :: "typecode \<Rightarrow> nat" where
  \<comment> \<open>the size of one element in a format that starts with \<^verbatim>\<open>!\<close>\<close>
  "std_size tc =
     (case tc of
        Code_b \<Rightarrow> 1 | Code_B \<Rightarrow> 1 | Code_i \<Rightarrow> 4 | Code_I \<Rightarrow> 4 | Code_h \<Rightarrow> 2 | Code_H \<Rightarrow> 2
      | Code_l \<Rightarrow> 4 | Code_L \<Rightarrow> 4 | Code_f \<Rightarrow> 4)"

definition unpack_elem :: "typecode \<Rightarrow> byte list \<Rightarrow> pyval" where
  "unpack_elem tc d =
     (case tc of
        Code_b \<Rightarrow> PyInt (sint (word_of_nat (be_nat d) :: 8 word))
      | Code_B \<Rightarrow> PyInt (int (be_nat d))
      | Code_i \<Rightarrow> PyInt (sint (word_of_nat (be_nat d) :: 32 word))
      | Code_I \<Rightarrow> PyInt (int (be_nat d))
      | Code_h \<Rightarrow> PyInt (sint (word_of_nat (be_nat d) :: 16 word))
      | Code_H \<Rightarrow> PyInt (int (be_nat d))
      | Code_l \<Rightarrow> PyInt (sint (word_of_nat (be_nat d) :: 32 word))
      | Code_L \<Rightarrow> PyInt (int (be_nat d))
      | Code_f \<Rightarrow> PyFloat (word_of_nat (be_nat d)))"

fun chunks :: "nat \<Rightarrow> nat \<Rightarrow> byte list \<Rightarrow> byte list list" where
  "chunks k 0 d = []"
| "chunks k (Suc n) d = take k d # chunks k n (drop k d)"

definition unpack_seq :: "typecode \<Rightarrow> nat \<Rightarrow> byte list \<Rightarrow> error + pyval list" where
  \<comment> \<open>\<^verbatim>\<open>Struct("!" + typecode * length).unpack(d)\<close>\<close>
  "unpack_seq tc n d =
     (if length d = std_size tc * n then Inr (map (unpack_elem tc) (chunks (std_size tc) n d))
      else Inl StructError)"

definition pack_signed :: "nat \<Rightarrow> int \<Rightarrow> error + byte list" where
  \<comment> \<open>a signed integer in \<open>k\<close> bytes, for \<open>k\<close> one of 1, 2 and 4\<close>
  "pack_signed k n =
     (if - (2 ^ (8 * k - 1)) \<le> n \<and> n < 2 ^ (8 * k - 1)
      then Inr ((if k = 1 then be1 else if k = 2 then be2 else be4) (nat (n mod 2 ^ (8 * k))))
      else Inl StructError)"

definition pack_unsigned :: "nat \<Rightarrow> int \<Rightarrow> error + byte list" where
  "pack_unsigned k n =
     (if 0 \<le> n \<and> n < 2 ^ (8 * k)
      then Inr ((if k = 1 then be1 else if k = 2 then be2 else be4) (nat n))
      else Inl StructError)"

definition pack_elem :: "typecode \<Rightarrow> pyval \<Rightarrow> error + byte list" where
  \<comment> \<open>one element of an \<^verbatim>\<open>array.array\<close>: an integer for the integer codes, a float for
      \<^verbatim>\<open>f\<close>; \<^verbatim>\<open>struct\<close> refuses anything else\<close>
  "pack_elem tc v =
     (case (tc, v) of
        (Code_b, PyInt n) \<Rightarrow> pack_signed 1 n
      | (Code_B, PyInt n) \<Rightarrow> pack_unsigned 1 n
      | (Code_h, PyInt n) \<Rightarrow> pack_signed 2 n
      | (Code_H, PyInt n) \<Rightarrow> pack_unsigned 2 n
      | (Code_i, PyInt n) \<Rightarrow> pack_signed 4 n
      | (Code_I, PyInt n) \<Rightarrow> pack_unsigned 4 n
      | (Code_l, PyInt n) \<Rightarrow> pack_signed 4 n
      | (Code_L, PyInt n) \<Rightarrow> pack_unsigned 4 n
      | (Code_f, PyFloat w) \<Rightarrow> pack_float w
      | _ \<Rightarrow> Inl StructError)"

fun pack_seq :: "typecode \<Rightarrow> pyval list \<Rightarrow> error + byte list" where
  \<comment> \<open>\<^verbatim>\<open>Struct("!" + typecode * len(arry)).pack(*arry)\<close>\<close>
  "pack_seq tc [] = Inr []"
| "pack_seq tc (v # vs) =
     (case pack_elem tc v of
        Inl e \<Rightarrow> Inl e
      | Inr b \<Rightarrow> (case pack_seq tc vs of Inl e \<Rightarrow> Inl e | Inr bs \<Rightarrow> Inr (b @ bs)))"

subsection \<open>Built-in functions the code calls\<close>

definition ord :: "pyval \<Rightarrow> error + int" where
  \<comment> \<open>\<^verbatim>\<open>ord\<close> accepts a string or a bytes object of length one, nothing else\<close>
  "ord v =
     (case v of
        PyBytes [b] \<Rightarrow> Inr (uint b)
      | PyStr [c] \<Rightarrow> Inr (int c)
      | _ \<Rightarrow> Inl TypeError)"

definition bytes_of_int :: "int \<Rightarrow> error + byte list" where
  \<comment> \<open>\<^verbatim>\<open>bytes(n)\<close> for an integer \<open>n\<close>: a bytes object of \<open>n\<close> zero bytes\<close>
  "bytes_of_int n = (if n < 0 then Inl ValueError else Inr (replicate (nat n) 0))"

fun bytes_of_items :: "pyval list \<Rightarrow> error + byte list" where
  \<comment> \<open>\<^verbatim>\<open>bytes\<close> of a sequence: every item an integer in \<^verbatim>\<open>range(256)\<close>\<close>
  "bytes_of_items [] = Inr []"
| "bytes_of_items (v # vs) =
     (case v of
        PyInt n \<Rightarrow>
          (if 0 \<le> n \<and> n < 256 then
             (case bytes_of_items vs of Inl e \<Rightarrow> Inl e | Inr bs \<Rightarrow> Inr (word_of_int n # bs))
           else Inl ValueError)
      | _ \<Rightarrow> Inl TypeError)"

definition bytes_of :: "pyval \<Rightarrow> error + byte list" where
  \<comment> \<open>the constructor \<^verbatim>\<open>bytes(x)\<close>: zero bytes for an integer, a copy for a bytes object,
      the items of a sequence of small integers, \<^verbatim>\<open>TypeError\<close> for a string (no encoding
      is given), a float or \<^verbatim>\<open>None\<close>\<close>
  "bytes_of v =
     (case v of
        PyInt n \<Rightarrow> bytes_of_int n
      | PyBytes bs \<Rightarrow> Inr bs
      | PyTuple vs \<Rightarrow> bytes_of_items vs
      | _ \<Rightarrow> Inl TypeError)"

definition py_len :: "pyval \<Rightarrow> error + nat" where
  "py_len v =
     (case v of
        PyStr cs \<Rightarrow> Inr (length cs)
      | PyBytes bs \<Rightarrow> Inr (length bs)
      | PyTuple vs \<Rightarrow> Inr (length vs)
      | _ \<Rightarrow> Inl TypeError)"

definition utf8_char :: "nat \<Rightarrow> error + byte list" where
  \<comment> \<open>the UTF-8 encoding of one code point; surrogates cannot be encoded\<close>
  "utf8_char c =
     (if c < 128 then Inr [word_of_nat c]
      else if c < 2048 then Inr [word_of_nat (192 + c div 64), word_of_nat (128 + c mod 64)]
      else if 55296 \<le> c \<and> c < 57344 then Inl UnicodeEncodeError
      else if c < 65536 then
        Inr [word_of_nat (224 + c div 4096), word_of_nat (128 + c div 64 mod 64),
             word_of_nat (128 + c mod 64)]
      else if c < 1114112 then
        Inr [word_of_nat (240 + c div 262144), word_of_nat (128 + c div 4096 mod 64),
             word_of_nat (128 + c div 64 mod 64), word_of_nat (128 + c mod 64)]
      else Inl ValueError)"

fun encode_utf8 :: "nat list \<Rightarrow> error + byte list" where
  \<comment> \<open>\<^verbatim>\<open>s.encode("utf-8")\<close>\<close>
  "encode_utf8 [] = Inr []"
| "encode_utf8 (c # cs) =
     (case utf8_char c of
        Inl e \<Rightarrow> Inl e
      | Inr b \<Rightarrow> (case encode_utf8 cs of Inl e \<Rightarrow> Inl e | Inr bs \<Rightarrow> Inr (b @ bs)))"

section \<open>The variable-length integer\<close>

text \<open>
  Modelled from the spec: the functions \<^verbatim>\<open>varint\<close> and \<^verbatim>\<open>read_varint\<close> of
  \<^verbatim>\<open>alfanous.Support.whoosh.util\<close>, which is not among the sources. The spec describes
  the format as a self-delimiting multi-byte encoding where each byte carries 7 payload
  bits and a continuation flag in the top bit, least-significant group first.
\<close>

fun varint :: "nat \<Rightarrow> byte list" where
  "varint n =
     (if n < 128 then [word_of_nat n]
      else word_of_nat (n mod 128 + 128) # varint (n div 128))"

declare varint.simps [simp del]

text \<open>
  Modelled from the spec: decoding reads one byte at a time for as long as the
  continuation flag is set. The result is the decoded number and the count of bytes
  consumed; at the end of the file \<^verbatim>\<open>ord\<close> of the empty read raises \<^verbatim>\<open>TypeError\<close>.
\<close>

fun decode_varint :: "byte list \<Rightarrow> (error + nat) \<times> nat" where
  "decode_varint [] = (Inl TypeError, 0)"
| "decode_varint (b # bs) =
     (if unat b < 128 then (Inr (unat b), 1)
      else (case decode_varint bs of
              (Inl e, k) \<Rightarrow> (Inl e, Suc k)
            | (Inr v, k) \<Rightarrow> (Inr (unat b - 128 + 128 * v), Suc k)))"

definition util_read_varint :: "handle \<Rightarrow> (nat, handle) outcome" where
  \<comment> \<open>\<^verbatim>\<open>read_varint(fileobj.read)\<close>\<close>
  "util_read_varint h =
     (if closed h then (Inl ValueError, h)
      else if \<not> readable h then (Inl UnsupportedOperation, h)
      else (case decode_varint (drop (pos h) (content h)) of
              (r, k) \<Rightarrow> (r, (drain h)\<lparr>pos := pos h + k\<rparr>)))"

section \<open>The class StructFile\<close>

text \<open>
  \<open>map_view\<close> is the attribute \<^verbatim>\<open>self.map\<close>: \<open>None\<close> once \<^verbatim>\<open>del self.map\<close> has removed
  it, \<open>Mmap size\<close> for a real read-only mapping of the first \<open>size\<close> bytes of the file,
  \<open>Fakemap\<close> for the object \<^verbatim>\<open>_setup_fake_map\<close> installs. \<open>size_attr\<close> is \<^verbatim>\<open>self.size\<close>,
  which only the read-mode branch of the constructor sets. \<open>onclose\<close> says whether a
  close hook is registered. \<open>fileobj\<close> is the attribute \<^verbatim>\<open>self.file\<close>. Two fields are not attributes of the class but record what
  the close hook observes: \<open>ident\<close> is the identity of the instance and \<open>hook_log\<close> lists,
  in order, the identities the hook has been called with. The hook itself belongs to the
  caller; it is taken to return normally.
\<close>

datatype map_kind = Mmap nat | Fakemap

record structfile =
  fileobj :: handle
  name :: "string option"
  onclose :: bool
  is_closed :: bool
  map_view :: "map_kind option"
  size_attr :: "nat option"
  ident :: nat
  hook_log :: "nat list"

definition on_file :: "(handle \<Rightarrow> ('a, handle) outcome) \<Rightarrow> structfile \<Rightarrow> ('a, structfile) outcome" where
  \<comment> \<open>a call on \<^verbatim>\<open>self.file\<close>\<close>
  "on_file f s = (case f (fileobj s) of (r, h) \<Rightarrow> (r, s\<lparr>fileobj := h\<rparr>))"

definition discard :: "('a, 's) outcome \<Rightarrow> (unit, 's) outcome" where
  \<comment> \<open>a call whose result the method drops\<close>
  "discard m = bind_r m (\<lambda>_ s. (Inr (), s))"

text \<open>
  The constructor copies \<^verbatim>\<open>read\<close>, \<^verbatim>\<open>write\<close>, \<^verbatim>\<open>tell\<close> and \<^verbatim>\<open>seek\<close> from the handle onto the
  instance, so \<^verbatim>\<open>self.read\<close> is \<^verbatim>\<open>self.file.read\<close>.
\<close>

definition self_read :: "nat \<Rightarrow> structfile \<Rightarrow> (byte list, structfile) outcome" where
  "self_read n s = on_file (fread n) s"

definition self_write :: "byte list \<Rightarrow> structfile \<Rightarrow> (nat, structfile) outcome" where
  "self_write bs s = on_file (fwrite bs) s"

definition self_tell :: "structfile \<Rightarrow> (nat, structfile) outcome" where
  "self_tell s = on_file ftell s"

definition self_seek :: "nat \<Rightarrow> structfile \<Rightarrow> (nat, structfile) outcome" where
  "self_seek p s = on_file (fseek p) s"

subsection \<open>The mapped view\<close>

definition setup_fake_map :: "structfile \<Rightarrow> structfile" where
  "setup_fake_map s = s\<lparr>map_view := Some Fakemap\<rparr>"

definition fakemap_getitem :: "nat \<Rightarrow> structfile \<Rightarrow> (byte list, structfile) outcome" where
  \<comment> \<open>\<^verbatim>\<open>fakemap.__getitem__\<close> with an integer\<close>
  "fakemap_getitem i s = bind_r (self_seek i s) (\<lambda>_ s'. self_read 1 s')"

definition fakemap_getslice :: "nat \<Rightarrow> nat \<Rightarrow> structfile \<Rightarrow> (byte list, structfile) outcome" where
  \<comment> \<open>\<^verbatim>\<open>fakemap.__getitem__\<close> with a slice: \<^verbatim>\<open>read(stop - start)\<close>, which reads to the end
      of the file when the difference is negative\<close>
  "fakemap_getslice start stop s =
     bind_r (self_seek start s)
       (\<lambda>_ s'. if stop < start then on_file fread_all s' else self_read (stop - start) s')"

definition mapped_bytes :: "nat \<Rightarrow> structfile \<Rightarrow> byte list" where
  \<comment> \<open>what a mapping of the first \<open>size\<close> bytes shows: the bytes of the file itself,
      without what is pending in the handle's buffer\<close>
  "mapped_bytes sz s = take sz (disk (fileobj s))"

definition map_getitem :: "nat \<Rightarrow> structfile \<Rightarrow> (pyval, structfile) outcome" where
  \<comment> \<open>\<^verbatim>\<open>self.map[i]\<close>: indexing an \<^verbatim>\<open>mmap\<close> gives an integer, the fake map gives bytes\<close>
  "map_getitem i s =
     (case map_view s of
        None \<Rightarrow> (Inl AttributeError, s)
      | Some (Mmap sz) \<Rightarrow>
          (if i < length (mapped_bytes sz s) then (Inr (PyInt (uint (mapped_bytes sz s ! i))), s)
           else (Inl IndexError, s))
      | Some Fakemap \<Rightarrow> bind_r (fakemap_getitem i s) (\<lambda>d s'. (Inr (PyBytes d), s')))"

definition map_getslice :: "nat \<Rightarrow> nat \<Rightarrow> structfile \<Rightarrow> (byte list, structfile) outcome" where
  \<comment> \<open>\<^verbatim>\<open>self.map[start:stop]\<close>: a slice of an \<^verbatim>\<open>mmap\<close> is clipped to the mapping\<close>
  "map_getslice start stop s =
     (case map_view s of
        None \<Rightarrow> (Inl AttributeError, s)
      | Some (Mmap sz) \<Rightarrow> (Inr (take (stop - start) (drop start (mapped_bytes sz s))), s)
      | Some Fakemap \<Rightarrow> fakemap_getslice start stop s)"

subsection \<open>Construction and the life cycle\<close>

text \<open>
  What \<^verbatim>\<open>mmap.mmap\<close> does is the operating system's business, so its outcome is an
  argument of the constructor: the mapping is made, or the call raises \<^verbatim>\<open>OSError\<close>, or
  it raises something else (which \<^verbatim>\<open>except OSError\<close> does not catch). \<^verbatim>\<open>fileno()\<close> is
  called outside the \<^verbatim>\<open>try\<close>: it raises \<^verbatim>\<open>ValueError\<close> on a closed handle and
  \<^verbatim>\<open>io.UnsupportedOperation\<close> on a handle without a descriptor. \<^verbatim>\<open>os.fstat\<close> gives the
  size of the file itself.
\<close>

datatype mmap_outcome = Mapped | Raises_OSError | Raises_other error

definition read_mode :: "handle \<Rightarrow> bool" where
  \<comment> \<open>\<^verbatim>\<open>hasattr(fileobj, "mode") and "r" in fileobj.mode\<close>\<close>
  "read_mode h = (case mode h of None \<Rightarrow> False | Some m \<Rightarrow> CHR ''r'' \<in> set m)"

definition init :: "handle \<Rightarrow> string option \<Rightarrow> bool \<Rightarrow> bool \<Rightarrow> nat \<Rightarrow> mmap_outcome \<Rightarrow> error + structfile" where
  \<comment> \<open>\<^verbatim>\<open>StructFile(fileobj, name, onclose, mapped)\<close>; \<open>i\<close> is the identity of the new
      instance\<close>
  "init f nm hook mapped i os =
     (let s = \<lparr>fileobj = f, name = nm, onclose = hook, is_closed = False,
               map_view = None, size_attr = None, ident = i, hook_log = []\<rparr>
      in if mapped \<and> read_mode f then
           if closed f then Inl ValueError
           else if \<not> has_fileno f then Inl UnsupportedOperation
           else let s1 = s\<lparr>size_attr := Some (length (disk f))\<rparr>
                in if length (disk f) > 0 then
                     (case os of
                        Mapped \<Rightarrow> Inr (s1\<lparr>map_view := Some (Mmap (length (disk f)))\<rparr>)
                      | Raises_OSError \<Rightarrow> Inr (setup_fake_map s1)
                      | Raises_other e \<Rightarrow> Inl e)
                   else Inr (setup_fake_map s1)
         else Inr (setup_fake_map s))"

definition flush :: "structfile \<Rightarrow> (unit, structfile) outcome" where
  "flush s = (if has_flush (fileobj s) then on_file fflush s else (Inr (), s))"

definition close :: "structfile \<Rightarrow> (unit, structfile) outcome" where
  \<comment> \<open>\<^verbatim>\<open>del self.map\<close> raises \<^verbatim>\<open>AttributeError\<close> when the attribute is not there\<close>
  "close s =
     (case map_view s of
        None \<Rightarrow> (Inl AttributeError, s)
      | Some _ \<Rightarrow>
          (let s1 = s\<lparr>map_view := None\<rparr>;
               s2 = (if onclose s1 then s1\<lparr>hook_log := hook_log s1 @ [ident s1]\<rparr> else s1);
               s3 = (if has_close (fileobj s2) then s2\<lparr>fileobj := fclose (fileobj s2)\<rparr> else s2)
           in (Inr (), s3\<lparr>is_closed := True\<rparr>)))"

subsection \<open>Variable-length integers, strings and single bytes\<close>

definition write_varint :: "nat \<Rightarrow> structfile \<Rightarrow> (unit, structfile) outcome" where
  "write_varint i s = discard (on_file (fwrite (varint i)) s)"

definition read_varint :: "structfile \<Rightarrow> (nat, structfile) outcome" where
  "read_varint s = on_file util_read_varint s"

definition write_string :: "pyval \<Rightarrow> structfile \<Rightarrow> (unit, structfile) outcome" where
  \<comment> \<open>\<^verbatim>\<open>self.write_varint(len(s)); self.file.write(s)\<close>: a binary handle accepts bytes
      only and raises \<^verbatim>\<open>TypeError\<close> otherwise, after the length has been written\<close>
  "write_string v s =
     (case py_len v of
        Inl e \<Rightarrow> (Inl e, s)
      | Inr n \<Rightarrow>
          bind_r (write_varint n s)
            (\<lambda>_ s'. case v of
                       PyBytes bs \<Rightarrow> discard (on_file (fwrite bs) s')
                     | _ \<Rightarrow> (Inl TypeError, s')))"

definition write_string2 :: "pyval \<Rightarrow> structfile \<Rightarrow> (unit, structfile) outcome" where
  \<comment> \<open>text is encoded first; \<^verbatim>\<open>pack_ushort(len(s)) + s\<close> is built before anything is
      written\<close>
  "write_string2 v s =
     (case (case v of
              PyStr cs \<Rightarrow> (case encode_utf8 cs of Inl e \<Rightarrow> Inl e | Inr bs \<Rightarrow> Inr (PyBytes bs))
            | _ \<Rightarrow> Inr v) of
        Inl e \<Rightarrow> (Inl e, s)
      | Inr v' \<Rightarrow>
          (case py_len v' of
             Inl e \<Rightarrow> (Inl e, s)
           | Inr n \<Rightarrow>
               (case pack_ushort (int n) of
                  Inl e \<Rightarrow> (Inl e, s)
                | Inr l \<Rightarrow>
                    (case v' of
                       PyBytes bs \<Rightarrow> discard (self_write (l @ bs) s)
                     | _ \<Rightarrow> (Inl TypeError, s)))))"

definition read_string :: "structfile \<Rightarrow> (byte list, structfile) outcome" where
  "read_string s = bind_r (read_varint s) (\<lambda>n s'. on_file (fread n) s')"

definition skip_string :: "structfile \<Rightarrow> (unit, structfile) outcome" where
  "skip_string s = bind_r (read_varint s) (\<lambda>l s'. discard (on_file (fseek_cur l) s'))"

definition write_byte_obj :: "pyval \<Rightarrow> structfile \<Rightarrow> (unit, structfile) outcome" where
  \<comment> \<open>\<^verbatim>\<open>write_byte(n)\<close>, that is \<^verbatim>\<open>self.file.write(bytes(n))\<close>, for an argument of any type\<close>
  "write_byte_obj v s =
     (case bytes_of v of
        Inl e \<Rightarrow> (Inl e, s)
      | Inr bs \<Rightarrow> discard (on_file (fwrite bs) s))"

definition write_byte :: "int \<Rightarrow> structfile \<Rightarrow> (unit, structfile) outcome" where
  \<comment> \<open>\<^verbatim>\<open>write_byte(n)\<close> for an integer \<open>n\<close>, the argument its docstring describes\<close>
  "write_byte n s = write_byte_obj (PyInt n) s"

definition read_byte :: "structfile \<Rightarrow> (int, structfile) outcome" where
  \<comment> \<open>\<^verbatim>\<open>ord(self.file.read(1))\<close>\<close>
  "read_byte s = bind_r (on_file (fread 1) s) (\<lambda>d s'. (ord (PyBytes d), s'))"

definition get_byte :: "nat \<Rightarrow> structfile \<Rightarrow> (int, structfile) outcome" where
  \<comment> \<open>\<^verbatim>\<open>ord(self.map[position])\<close>\<close>
  "get_byte position s = bind_r (map_getitem position s) (\<lambda>v s'. (ord v, s'))"

text \<open>
  The compact float. \<^verbatim>\<open>float_to_byte\<close> and \<^verbatim>\<open>byte_to_float\<close> belong to
  \<^verbatim>\<open>alfanous.Support.whoosh.util\<close>, which is not among the sources, so they are
  arguments here. What the encoder returns goes to \<^verbatim>\<open>write_byte\<close> as it is, whatever its
  type; the decoder is handed the integer \<^verbatim>\<open>read_byte\<close> returns.
\<close>

definition write_8bitfloat ::
  "('f \<Rightarrow> nat \<Rightarrow> nat \<Rightarrow> pyval) \<Rightarrow> 'f \<Rightarrow> nat \<Rightarrow> nat \<Rightarrow> structfile \<Rightarrow> (unit, structfile) outcome" where
  "write_8bitfloat float_to_byte f mantissabits zeroexp s =
     write_byte_obj (float_to_byte f mantissabits zeroexp) s"

definition read_8bitfloat ::
  "(int \<Rightarrow> nat \<Rightarrow> nat \<Rightarrow> 'f) \<Rightarrow> nat \<Rightarrow> nat \<Rightarrow> structfile \<Rightarrow> ('f, structfile) outcome" where
  "read_8bitfloat byte_to_float mantissabits zeroexp s =
     bind_r (read_byte s) (\<lambda>b s'. (Inr (byte_to_float b mantissabits zeroexp), s'))"

subsection \<open>Fixed-width values at the cursor\<close>

definition write_packed :: "error + byte list \<Rightarrow> structfile \<Rightarrow> (unit, structfile) outcome" where
  \<comment> \<open>\<^verbatim>\<open>self.file.write(pack(...))\<close>: nothing is written when packing raises\<close>
  "write_packed p s =
     (case p of Inl e \<Rightarrow> (Inl e, s) | Inr bs \<Rightarrow> discard (on_file (fwrite bs) s))"

definition write_sbyte :: "int \<Rightarrow> structfile \<Rightarrow> (unit, structfile) outcome" where
  "write_sbyte n s = write_packed (pack_sbyte n) s"

definition write_int :: "int \<Rightarrow> structfile \<Rightarrow> (unit, structfile) outcome" where
  "write_int n s = write_packed (pack_int n) s"

definition write_uint :: "int \<Rightarrow> structfile \<Rightarrow> (unit, structfile) outcome" where
  "write_uint n s = write_packed (pack_uint n) s"

definition write_ushort :: "int \<Rightarrow> structfile \<Rightarrow> (unit, structfile) outcome" where
  "write_ushort n s = write_packed (pack_ushort n) s"

definition write_ulong :: "int \<Rightarrow> structfile \<Rightarrow> (unit, structfile) outcome" where
  "write_ulong n s = write_packed (pack_ulong n) s"

definition write_float :: "32 word \<Rightarrow> structfile \<Rightarrow> (unit, structfile) outcome" where
  "write_float n s = write_packed (pack_float n) s"

definition write_array :: "typecode \<Rightarrow> pyval list \<Rightarrow> structfile \<Rightarrow> (unit, structfile) outcome" where
  \<comment> \<open>the array is its type code and its elements\<close>
  "write_array tc arry s = write_packed (pack_seq tc arry) s"

definition read_unpacked :: "nat \<Rightarrow> (byte list \<Rightarrow> error + 'a) \<Rightarrow> structfile \<Rightarrow> ('a, structfile) outcome" where
  \<comment> \<open>\<^verbatim>\<open>unpack(self.file.read(n))[0]\<close>\<close>
  "read_unpacked n unpack s = bind_r (on_file (fread n) s) (\<lambda>d s'. (unpack d, s'))"

definition read_sbyte :: "structfile \<Rightarrow> (int, structfile) outcome" where
  "read_sbyte s = read_unpacked 1 unpack_sbyte s"

definition read_int :: "structfile \<Rightarrow> (int, structfile) outcome" where
  \<comment> \<open>the one read that checks the length of what it got; \<^verbatim>\<open>self.tell()\<close> in the message
      is the cursor after the short read\<close>
  "read_int s =
     bind_r (on_file (fread INT_SIZE) s)
       (\<lambda>data s'.
          if length data < INT_SIZE then
            bind_r (self_tell s')
              (\<lambda>p s''. (Inl (IOError (name s'') p data INT_SIZE (length data)), s''))
          else (unpack_int data, s'))"

definition read_uint :: "structfile \<Rightarrow> (int, structfile) outcome" where
  "read_uint s = read_unpacked INT_SIZE unpack_uint s"

definition read_ushort :: "structfile \<Rightarrow> (int, structfile) outcome" where
  "read_ushort s = read_unpacked USHORT_SIZE unpack_ushort s"

definition read_ulong :: "structfile \<Rightarrow> (int, structfile) outcome" where
  "read_ulong s = read_unpacked ULONG_SIZE unpack_ulong s"

definition read_float :: "structfile \<Rightarrow> (32 word, structfile) outcome" where
  "read_float s = read_unpacked FLOAT_SIZE unpack_float s"

definition read_array :: "nat \<Rightarrow> typecode \<Rightarrow> nat \<Rightarrow> structfile \<Rightarrow> (pyval list, structfile) outcome" where
  \<comment> \<open>the first argument is the platform's size of a C \<^verbatim>\<open>long\<close>, for \<^verbatim>\<open>_SIZEMAP\<close>\<close>
  "read_array long_size tc n s = read_unpacked (SIZEMAP long_size tc * n) (unpack_seq tc n) s"

definition read_string2 :: "structfile \<Rightarrow> (byte list, structfile) outcome" where
  "read_string2 s = bind_r (read_ushort s) (\<lambda>l s'. self_read (nat l) s')"

subsection \<open>Fixed-width values at an absolute position\<close>

definition get_unpacked :: "nat \<Rightarrow> nat \<Rightarrow> (byte list \<Rightarrow> error + 'a) \<Rightarrow> structfile \<Rightarrow> ('a, structfile) outcome" where
  \<comment> \<open>\<^verbatim>\<open>unpack(self.map[position : position + n])[0]\<close>\<close>
  "get_unpacked position n unpack s =
     bind_r (map_getslice position (position + n) s) (\<lambda>d s'. (unpack d, s'))"

definition get_sbyte :: "nat \<Rightarrow> structfile \<Rightarrow> (int, structfile) outcome" where
  "get_sbyte position s = get_unpacked position 1 unpack_sbyte s"

definition get_int :: "nat \<Rightarrow> structfile \<Rightarrow> (int, structfile) outcome" where
  "get_int position s = get_unpacked position INT_SIZE unpack_int s"

definition get_uint :: "nat \<Rightarrow> structfile \<Rightarrow> (int, structfile) outcome" where
  "get_uint position s = get_unpacked position INT_SIZE unpack_uint s"

definition get_ushort :: "nat \<Rightarrow> structfile \<Rightarrow> (int, structfile) outcome" where
  "get_ushort position s = get_unpacked position USHORT_SIZE unpack_ushort s"

definition get_ulong :: "nat \<Rightarrow> structfile \<Rightarrow> (int, structfile) outcome" where
  "get_ulong position s = get_unpacked position ULONG_SIZE unpack_ulong s"

definition get_float :: "nat \<Rightarrow> structfile \<Rightarrow> (32 word, structfile) outcome" where
  "get_float position s = get_unpacked position FLOAT_SIZE unpack_float s"

definition get_array :: "nat \<Rightarrow> nat \<Rightarrow> typecode \<Rightarrow> nat \<Rightarrow> structfile \<Rightarrow> (pyval list, structfile) outcome" where
  "get_array long_size position tc n s =
     get_unpacked position (SIZEMAP long_size tc * n) (unpack_seq tc n) s"

subsection \<open>Pickles\<close>

text \<open>
  \<^verbatim>\<open>write_pickle\<close> and \<^verbatim>\<open>read_pickle\<close> hand \<^verbatim>\<open>self.file\<close> to the host's serializer. What it
  writes for an object, and how far it reads, is its own business: the bytes it emits
  and the number of bytes it consumes are arguments here.
\<close>

definition write_pickle :: "byte list \<Rightarrow> structfile \<Rightarrow> (unit, structfile) outcome" where
  "write_pickle pickled s = discard (on_file (fwrite pickled) s)"

definition read_pickle :: "nat \<Rightarrow> structfile \<Rightarrow> (byte list, structfile) outcome" where
  "read_pickle consumed s = on_file (fread consumed) s"

section \<open>Instances for examples\<close>

definition opened :: "byte list \<Rightarrow> string \<Rightarrow> handle" where
  \<comment> \<open>\<^verbatim>\<open>open(path, m)\<close> on a file with the given bytes\<close>
  "opened c m = \<lparr>content = c, disk = c, pos = 0, mode = Some m, closed = False, buffered = True,
                 has_fileno = True, has_flush = True, has_close = True, flushed = 0\<rparr>"

definition unmapped :: "byte list \<Rightarrow> structfile" where
  \<comment> \<open>\<^verbatim>\<open>StructFile(fileobj, mapped=False)\<close> over a file with the given bytes\<close>
  "unmapped c =
     setup_fake_map \<lparr>fileobj = opened c ''r+b'', name = None, onclose = False, is_closed = False,
       map_view = None, size_attr = None, ident = 0, hook_log = []\<rparr>"

definition mmapped :: "byte list \<Rightarrow> structfile" where
  \<comment> \<open>\<^verbatim>\<open>StructFile(fileobj)\<close> over a non-empty file opened in mode \<^verbatim>\<open>r+b\<close>, when the
      mapping succeeds\<close>
  "mmapped c =
     \<lparr>fileobj = opened c ''r+b'', name = None, onclose = False, is_closed = False,
      map_view = Some (Mmap (length c)), size_attr = Some (length c), ident = 0, hook_log = []\<rparr>"

section \<open>Sequences of calls on one instance\<close>

text \<open>
  Every method of the class, and every access to \<^verbatim>\<open>self.map\<close>, as one operation.
  \<open>step\<close> is the state an operation leaves behind, whether it returns or raises.
  The argument of \<open>Op_write_8bitfloat\<close> is the value the encoder returned; those of
  the pickle operations are the bytes the serializer emits and the number of bytes it
  consumes. The first argument of \<open>step\<close> is the platform's size of a C \<^verbatim>\<open>long\<close>.
\<close>

datatype op =
    Op_flush
  | Op_close
  | Op_read nat
  | Op_write "byte list"
  | Op_tell
  | Op_seek nat
  | Op_map_getitem nat
  | Op_map_getslice nat nat
  | Op_write_string pyval
  | Op_write_string2 pyval
  | Op_read_string
  | Op_read_string2
  | Op_skip_string
  | Op_write_varint nat
  | Op_read_varint
  | Op_write_byte int
  | Op_read_byte
  | Op_get_byte nat
  | Op_write_8bitfloat pyval
  | Op_read_8bitfloat
  | Op_write_pickle "byte list"
  | Op_read_pickle nat
  | Op_write_sbyte int
  | Op_write_int int
  | Op_write_uint int
  | Op_write_ushort int
  | Op_write_ulong int
  | Op_write_float "32 word"
  | Op_write_array typecode "pyval list"
  | Op_read_sbyte
  | Op_read_int
  | Op_read_uint
  | Op_read_ushort
  | Op_read_ulong
  | Op_read_float
  | Op_read_array typecode nat
  | Op_get_sbyte nat
  | Op_get_int nat
  | Op_get_uint nat
  | Op_get_ushort nat
  | Op_get_ulong nat
  | Op_get_float nat
  | Op_get_array nat typecode nat

primrec step :: "nat \<Rightarrow> op \<Rightarrow> structfile \<Rightarrow> structfile" where
  "step l Op_flush s = snd (flush s)"
| "step l Op_close s = snd (close s)"
| "step l (Op_read n) s = snd (self_read n s)"
| "step l (Op_write bs) s = snd (self_write bs s)"
| "step l Op_tell s = snd (self_tell s)"
| "step l (Op_seek p) s = snd (self_seek p s)"
| "step l (Op_map_getitem i) s = snd (map_getitem i s)"
| "step l (Op_map_getslice a b) s = snd (map_getslice a b s)"
| "step l (Op_write_string v) s = snd (write_string v s)"
| "step l (Op_write_string2 v) s = snd (write_string2 v s)"
| "step l Op_read_string s = snd (read_string s)"
| "step l Op_read_string2 s = snd (read_string2 s)"
| "step l Op_skip_string s = snd (skip_string s)"
| "step l (Op_write_varint n) s = snd (write_varint n s)"
| "step l Op_read_varint s = snd (read_varint s)"
| "step l (Op_write_byte n) s = snd (write_byte n s)"
| "step l Op_read_byte s = snd (read_byte s)"
| "step l (Op_get_byte p) s = snd (get_byte p s)"
| "step l (Op_write_8bitfloat b) s = snd (write_8bitfloat (\<lambda>f m z. f) b 5 2 s)"
| "step l Op_read_8bitfloat s = snd (read_8bitfloat (\<lambda>b m z. b) 5 2 s)"
| "step l (Op_write_pickle bs) s = snd (write_pickle bs s)"
| "step l (Op_read_pickle n) s = snd (read_pickle n s)"
| "step l (Op_write_sbyte n) s = snd (write_sbyte n s)"
| "step l (Op_write_int n) s = snd (write_int n s)"
| "step l (Op_write_uint n) s = snd (write_uint n s)"
| "step l (Op_write_ushort n) s = snd (write_ushort n s)"
| "step l (Op_write_ulong n) s = snd (write_ulong n s)"
| "step l (Op_write_float w) s = snd (write_float w s)"
| "step l (Op_write_array tc vs) s = snd (write_array tc vs s)"
| "step l Op_read_sbyte s = snd (read_sbyte s)"
| "step l Op_read_int s = snd (read_int s)"
| "step l Op_read_uint s = snd (read_uint s)"
| "step l Op_read_ushort s = snd (read_ushort s)"
| "step l Op_read_ulong s = snd (read_ulong s)"
| "step l Op_read_float s = snd (read_float s)"
| "step l (Op_read_array tc n) s = snd (read_array l tc n s)"
| "step l (Op_get_sbyte p) s = snd (get_sbyte p s)"
| "step l (Op_get_int p) s = snd (get_int p s)"
| "step l (Op_get_uint p) s = snd (get_uint p s)"
| "step l (Op_get_ushort p) s = snd (get_ushort p s)"
| "step l (Op_get_ulong p) s = snd (get_ulong p s)"
| "step l (Op_get_float p) s = snd (get_float p s)"
| "step l (Op_get_array p tc n) s = snd (get_array l p tc n s)"

fun run :: "nat \<Rightarrow> op list \<Rightarrow> structfile \<Rightarrow> structfile" where
  "run l [] s = s"
| "run l (x # xs) s = run l xs (step l x s)"

section \<open>Predicates of the properties\<close>

definition kept :: "structfile \<Rightarrow> structfile \<Rightarrow> bool" where
  \<comment> \<open>the two states differ at most in the file's bytes, the cursor and the count of
      flushes\<close>
  "kept s s' =
     (name s' = name s \<and> onclose s' = onclose s \<and> is_closed s' = is_closed s \<and>
      map_view s' = map_view s \<and> size_attr s' = size_attr s \<and> ident s' = ident s \<and>
      hook_log s' = hook_log s \<and> mode (fileobj s') = mode (fileobj s) \<and>
      closed (fileobj s') = closed (fileobj s) \<and> buffered (fileobj s') = buffered (fileobj s) \<and>
      has_fileno (fileobj s') = has_fileno (fileobj s) \<and>
      has_flush (fileobj s') = has_flush (fileobj s) \<and>
      has_close (fileobj s') = has_close (fileobj s))"

definition lifecycle :: "structfile \<Rightarrow> bool" where
  \<comment> \<open>what holds of an instance from its construction on: while it has its map it is
      not marked closed and the hook has not been called; once the map is gone it is
      marked closed and the hook has been called at most once\<close>
  "lifecycle s =
     (case map_view s of
        Some _ \<Rightarrow> \<not> is_closed s \<and> hook_log s = []
      | None \<Rightarrow> is_closed s \<and> length (hook_log s) \<le> 1)"

section \<open>Basic facts\<close>

lemma unat_byte: "n < 256 \<Longrightarrow> unat (word_of_nat n :: byte) = n"
  by (simp add: unat_of_nat)

lemma decode_varint_varint: "decode_varint (varint n @ rest) = (Inr n, length (varint n))"
proof (induction n rule: varint.induct)
  case (1 n)
  show ?case
  proof (cases "n < 128")
    case True
    then show ?thesis by (subst (1 2) varint.simps) (simp add: unat_byte)
  next
    case False
    have m: "n mod 128 + 128 < 256" by simp
    have "n mod 128 + 128 * (n div 128) = n" by simp
    with False 1 m show ?thesis
      by (subst (1 2) varint.simps) (simp del: of_nat_add add: unat_byte)
  qed
qed

lemma readable_mode: "mode h' = mode h \<Longrightarrow> readable h' = readable h"
  by (simp add: readable_def)

lemma writable_mode: "mode h' = mode h \<Longrightarrow> writable h' = writable h"
  by (simp add: writable_def)

lemma drain_fields:
  "content (drain h) = content h" "pos (drain h) = pos h" "closed (drain h) = closed h"
  "mode (drain h) = mode h" "disk (drain h) = content h" "readable (drain h) = readable h"
  "writable (drain h) = writable h" "buffered (drain h) = buffered h"
  by (simp_all add: drain_def readable_def writable_def)

lemma pos_update_fields:
  "readable (h\<lparr>pos := p\<rparr>) = readable h" "writable (h\<lparr>pos := p\<rparr>) = writable h"
  by (simp_all add: readable_def writable_def)

lemma fwrite_fields:
  "closed (snd (fwrite bs h)) = closed h" "mode (snd (fwrite bs h)) = mode h"
  "readable (snd (fwrite bs h)) = readable h" "writable (snd (fwrite bs h)) = writable h"
  by (simp_all add: fwrite_def Let_def drain_def readable_def writable_def)

lemma fwrite_pos:
  "\<not> closed h \<Longrightarrow> writable h \<Longrightarrow> pos (snd (fwrite bs h)) = pos h + length bs"
  by (simp add: fwrite_def Let_def drain_def)

lemma fwrite_fst: "\<not> closed h \<Longrightarrow> writable h \<Longrightarrow> fst (fwrite bs h) = Inr (length bs)"
  by (simp add: fwrite_def Let_def)

lemma fwrite_content:
  "\<not> closed h \<Longrightarrow> writable h \<Longrightarrow> bs \<noteq> [] \<Longrightarrow>
   content (snd (fwrite bs h)) =
     take (pos h) (content h) @ replicate (pos h - length (content h)) 0 @ bs
       @ drop (pos h + length bs) (content h)"
  by (simp add: fwrite_def Let_def drain_def)

lemma fwrite_at:
  "\<not> closed h \<Longrightarrow> writable h \<Longrightarrow>
   \<exists>rest. drop (pos h) (content (snd (fwrite bs h))) = bs @ rest"
  by (cases "bs = []") (simp_all add: fwrite_def Let_def min_def drain_def)

lemma fwrite_nil: "snd (fwrite [] h) = h"
  by (simp add: fwrite_def)

lemma fwrite_twice_at:
  assumes "\<not> closed h" "writable h"
  shows "\<exists>rest. drop (pos h) (content (snd (fwrite b (snd (fwrite a h))))) = a @ b @ rest"
proof -
  let ?h1 = "snd (fwrite a h)"
  have c1: "\<not> closed ?h1" "writable ?h1" using assms by (simp_all add: fwrite_fields)
  have p1: "pos ?h1 = pos h + length a" using assms by (simp add: fwrite_pos)
  show ?thesis
  proof (cases "b = []")
    case True
    then show ?thesis using fwrite_at[OF assms, of a] by (simp add: fwrite_nil)
  next
    case False
    show ?thesis
    proof (cases "a = []")
      case True
      then show ?thesis using fwrite_at[OF assms, of b] by (simp add: fwrite_nil)
    next
      case an: False
      obtain r where r: "drop (pos h) (content ?h1) = a @ r"
        using fwrite_at[OF assms] by blast
      have len: "pos h + length a \<le> length (content ?h1)"
        using assms an by (simp add: fwrite_content)
      have "drop (pos h) (content (snd (fwrite b ?h1)))
            = drop (pos h) (take (pos ?h1) (content ?h1)) @ b @ drop (pos ?h1 + length b) (content ?h1)"
        using c1 False len p1 by (simp add: fwrite_content)
      also have "drop (pos h) (take (pos ?h1) (content ?h1)) = take (length a) (drop (pos h) (content ?h1))"
        using p1 by (simp add: drop_take)
      also have "\<dots> = a" using r by simp
      finally show ?thesis by auto
    qed
  qed
qed

lemma fst_on_file: "fst (on_file f s) = fst (f (fileobj s))"
  by (simp add: on_file_def split: prod.splits)

lemma snd_on_file: "snd (on_file f s) = s\<lparr>fileobj := snd (f (fileobj s))\<rparr>"
  by (simp add: on_file_def split: prod.splits)

lemma bind_r_alt:
  "bind_r m k = (case fst m of Inl e \<Rightarrow> (Inl e, snd m) | Inr a \<Rightarrow> k a (snd m))"
  by (simp add: bind_r_def split: prod.splits sum.splits)

lemma snd_discard: "snd (discard m) = snd m"
  by (simp add: discard_def bind_r_alt split: sum.splits)

lemma fst_discard: "fst (discard m) = (case fst m of Inl e \<Rightarrow> Inl e | Inr a \<Rightarrow> Inr ())"
  by (simp add: discard_def bind_r_alt split: sum.splits)

lemma fseek_open: "\<not> closed h \<Longrightarrow> fseek p h = (Inr p, (drain h)\<lparr>pos := p\<rparr>)"
  by (simp add: fseek_def)

lemma seek_back:
  "\<not> closed (fileobj s) \<Longrightarrow>
   snd (self_seek p s) = s\<lparr>fileobj := (drain (fileobj s))\<lparr>pos := p\<rparr>\<rparr>"
  by (simp add: self_seek_def snd_on_file fseek_open)

lemma fread_fst:
  "\<not> closed h \<Longrightarrow> readable h \<Longrightarrow> fst (fread n h) = Inr (take n (drop (pos h) (content h)))"
  by (simp add: fread_def Let_def)

lemma fread_fields:
  "content (snd (fread n h)) = content h" "closed (snd (fread n h)) = closed h"
  "mode (snd (fread n h)) = mode h" "readable (snd (fread n h)) = readable h"
  by (simp_all add: fread_def Let_def drain_def readable_def)

lemma fread_pos:
  "\<not> closed h \<Longrightarrow> readable h \<Longrightarrow>
   pos (snd (fread n h)) = pos h + length (take n (drop (pos h) (content h)))"
  by (simp add: fread_def Let_def drain_def)

lemma read_varint_at:
  assumes "\<not> closed h" "readable h" "drop (pos h) (content h) = varint n @ rest"
  shows "util_read_varint h = (Inr n, (drain h)\<lparr>pos := pos h + length (varint n)\<rparr>)"
  using assms by (simp add: util_read_varint_def decode_varint_varint)

lemma be_nat_be2: "n < 65536 \<Longrightarrow> be_nat (be2 n) = n"
  by (simp add: be_nat_def be2_def unat_of_nat)

lemma unmapped_open: "\<not> closed (fileobj (unmapped c))"
  by (simp add: unmapped_def setup_fake_map_def opened_def)

lemma unmapped_readable: "readable (fileobj (unmapped c))"
  by (simp add: unmapped_def setup_fake_map_def opened_def readable_def)

lemma unmapped_writable: "writable (fileobj (unmapped c))"
  by (simp add: unmapped_def setup_fake_map_def opened_def writable_def)

lemma unmapped_pos: "pos (fileobj (unmapped c)) = 0"
  by (simp add: unmapped_def setup_fake_map_def opened_def)

lemma unmapped_content: "content (fileobj (unmapped c)) = c"
  by (simp add: unmapped_def setup_fake_map_def opened_def)

lemma unmapped_name: "name (unmapped c) = None"
  by (simp add: unmapped_def setup_fake_map_def)

section \<open>The variable-length integer round trip\<close>

text \<open>
  Claim C2. For every non-negative integer \<open>n\<close>, writing \<open>n\<close> with \<^verbatim>\<open>write_varint\<close> on an
  open handle that can be written and read, and reading with \<^verbatim>\<open>read_varint\<close> from the
  position where the write began, returns exactly \<open>n\<close>. Python's integers are unbounded,
  so \<open>n\<close> ranges over all of \<open>nat\<close>. The encoding itself is the one the spec describes,
  since its code is not among the sources.
\<close>

theorem varint_roundtrip:
  assumes "\<not> closed (fileobj s)" "writable (fileobj s)" "readable (fileobj s)"
  shows "fst (write_varint n s) = Inr () \<and>
         fst (read_varint (snd (self_seek (pos (fileobj s)) (snd (write_varint n s))))) = Inr n"
proof -
  let ?h = "fileobj s"
  let ?h1 = "snd (fwrite (varint n) ?h)"
  let ?h2 = "(drain ?h1)\<lparr>pos := pos ?h\<rparr>"
  have c1: "\<not> closed ?h1" "readable ?h1" using assms by (simp_all add: fwrite_fields)
  obtain rest where r: "drop (pos ?h) (content ?h1) = varint n @ rest"
    using fwrite_at[OF assms(1,2)] by blast
  have w: "snd (write_varint n s) = s\<lparr>fileobj := ?h1\<rparr>"
    by (simp add: write_varint_def snd_discard snd_on_file)
  have k: "snd (self_seek (pos ?h) (snd (write_varint n s))) = s\<lparr>fileobj := ?h2\<rparr>"
    using c1 by (simp add: w seek_back)
  have "util_read_varint ?h2 = (Inr n, (drain ?h2)\<lparr>pos := pos ?h2 + length (varint n)\<rparr>)"
    by (rule read_varint_at[where rest = rest])
      (use c1 r in \<open>simp_all add: drain_fields pos_update_fields\<close>)
  then have "fst (read_varint (s\<lparr>fileobj := ?h2\<rparr>)) = Inr n"
    by (simp add: read_varint_def fst_on_file)
  moreover have "fst (write_varint n s) = Inr ()"
    using assms by (simp add: write_varint_def fst_discard fst_on_file fwrite_fst)
  ultimately show ?thesis by (simp add: k)
qed

theorem varint_roundtrip_witness:
  "\<not> closed (fileobj (unmapped [])) \<and> writable (fileobj (unmapped [])) \<and>
   readable (fileobj (unmapped [])) \<and>
   fst (read_varint (snd (self_seek 0 (snd (write_varint 300 (unmapped [])))))) = Inr 300"
  using varint_roundtrip[OF unmapped_open[of "[]"] unmapped_writable unmapped_readable, of 300]
    unmapped_open[of "[]"] unmapped_writable[of "[]"] unmapped_readable[of "[]"]
  by (simp only: unmapped_pos simp_thms)

section \<open>The two string encodings\<close>

lemma write_string_bytes:
  "\<not> closed (fileobj s) \<Longrightarrow> writable (fileobj s) \<Longrightarrow>
   write_string (PyBytes bs) s =
     (Inr (), s\<lparr>fileobj := snd (fwrite bs (snd (fwrite (varint (length bs)) (fileobj s))))\<rparr>)"
  by (simp add: write_string_def py_len_def write_varint_def bind_r_alt fst_discard snd_discard
      fst_on_file snd_on_file fwrite_fst fwrite_fields prod_eq_iff)

lemma read_string_at:
  assumes "\<not> closed h" "readable h" "drop (pos h) (content h) = varint (length bs) @ bs @ rest"
  shows "fst (read_string (s\<lparr>fileobj := h\<rparr>)) = Inr bs"
proof -
  let ?h1 = "(drain h)\<lparr>pos := pos h + length (varint (length bs))\<rparr>"
  have "drop (pos ?h1) (content ?h1) = drop (length (varint (length bs))) (drop (pos h) (content h))"
    by (simp add: add.commute drain_fields)
  then have d: "drop (pos ?h1) (content ?h1) = bs @ rest" using assms(3) by simp
  have "fst (fread (length bs) ?h1) = Inr (take (length bs) (drop (pos ?h1) (content ?h1)))"
    using assms(1,2) by (intro fread_fst) (simp_all add: drain_fields pos_update_fields)
  then have "fst (fread (length bs) ?h1) = Inr bs" by (simp only: d) simp
  then show ?thesis
    using assms by (simp add: read_string_def read_varint_def bind_r_alt fst_on_file snd_on_file
        read_varint_at)
qed

lemma write_string2_bytes:
  "\<not> closed (fileobj s) \<Longrightarrow> writable (fileobj s) \<Longrightarrow> length bs < 65536 \<Longrightarrow>
   write_string2 (PyBytes bs) s =
     (Inr (), s\<lparr>fileobj := snd (fwrite (be2 (length bs) @ bs) (fileobj s))\<rparr>)"
  by (simp add: write_string2_def py_len_def pack_ushort_def self_write_def fst_discard snd_discard
      fst_on_file snd_on_file fwrite_fst prod_eq_iff)

lemma write_string2_text:
  "encode_utf8 cs = Inr bs \<Longrightarrow> write_string2 (PyStr cs) s = write_string2 (PyBytes bs) s"
  by (simp add: write_string2_def)

lemma write_string2_refused:
  "65536 \<le> length bs \<Longrightarrow> write_string2 (PyBytes bs) s = (Inl StructError, s)"
  by (simp add: write_string2_def py_len_def pack_ushort_def)

lemma read_string2_at:
  assumes "\<not> closed h" "readable h" "drop (pos h) (content h) = be2 (length bs) @ bs @ rest"
    "length bs < 65536"
  shows "fst (read_string2 (s\<lparr>fileobj := h\<rparr>)) = Inr bs"
proof -
  have l2: "length (be2 (length bs)) = 2" by (simp add: be2_def)
  have t2: "take 2 (drop (pos h) (content h)) = be2 (length bs)"
    using assms(3) l2 by simp
  let ?h1 = "snd (fread 2 h)"
  have f1: "fst (fread 2 h) = Inr (be2 (length bs))"
    using assms(1,2) t2 by (simp add: fread_fst)
  have p1: "pos ?h1 = pos h + 2" using assms(1,2) t2 l2 by (simp add: fread_pos)
  have o1: "\<not> closed ?h1" "readable ?h1" using assms(1,2) by (simp_all add: fread_fields)
  have "drop (pos ?h1) (content ?h1) = drop 2 (drop (pos h) (content h))"
    by (simp add: p1 fread_fields add.commute)
  then have d: "drop (pos ?h1) (content ?h1) = bs @ rest" using assms(3) l2 by simp
  have "fst (fread (length bs) ?h1) = Inr (take (length bs) (drop (pos ?h1) (content ?h1)))"
    using o1 by (rule fread_fst)
  then have r2: "fst (fread (length bs) ?h1) = Inr bs" by (simp only: d) simp
  show ?thesis
    using f1 r2 assms(4)
    by (simp add: read_string2_def read_ushort_def read_unpacked_def USHORT_SIZE_def bind_r_alt
        fst_on_file snd_on_file unpack_ushort_def be_nat_be2 self_read_def l2)
qed

text \<open>
  Claim C3, as amended. On an open handle that can be written and read, writing a bytes
  object with \<^verbatim>\<open>write_string\<close> and reading with \<^verbatim>\<open>read_string\<close> from the position where
  the write began returns the same bytes, whatever their length. \<^verbatim>\<open>write_string2\<close>
  followed by \<^verbatim>\<open>read_string2\<close> does so for a bytes object of at most 65535 bytes, the
  bound of its two-byte length prefix, and for a text string whose UTF-8 encoding has
  at most 65535 bytes it returns that encoding. A longer bytes object, or a text string
  with a longer encoding, is refused: \<^verbatim>\<open>write_string2\<close> raises \<^verbatim>\<open>struct.error\<close> and
  leaves the file and the cursor as they were.
\<close>

theorem string_roundtrip:
  assumes "\<not> closed (fileobj s)" "writable (fileobj s)" "readable (fileobj s)"
  shows "fst (read_string (snd (self_seek (pos (fileobj s)) (snd (write_string (PyBytes bs) s)))))
           = Inr bs
       \<and> (length bs < 65536 \<longrightarrow>
            fst (read_string2 (snd (self_seek (pos (fileobj s)) (snd (write_string2 (PyBytes bs) s)))))
              = Inr bs)
       \<and> (length bs < 65536 \<and> encode_utf8 cs = Inr bs \<longrightarrow>
            fst (read_string2 (snd (self_seek (pos (fileobj s)) (snd (write_string2 (PyStr cs) s)))))
              = Inr bs)
       \<and> (65536 \<le> length bs \<longrightarrow> write_string2 (PyBytes bs) s = (Inl StructError, s))
       \<and> (65536 \<le> length bs \<and> encode_utf8 cs = Inr bs \<longrightarrow>
            write_string2 (PyStr cs) s = (Inl StructError, s))"
proof -
  let ?h = "fileobj s"
  let ?h1 = "snd (fwrite bs (snd (fwrite (varint (length bs)) ?h)))"
  have c1: "\<not> closed ?h1" "readable ?h1" using assms by (simp_all add: fwrite_fields)
  obtain rest where r: "drop (pos ?h) (content ?h1) = varint (length bs) @ bs @ rest"
    using fwrite_twice_at[OF assms(1,2)] by blast
  have "fst (read_string (s\<lparr>fileobj := (drain ?h1)\<lparr>pos := pos ?h\<rparr>\<rparr>)) = Inr bs"
    by (rule read_string_at[where rest = rest])
      (use c1 r in \<open>simp_all add: drain_fields pos_update_fields\<close>)
  then have v1: "fst (read_string (snd (self_seek (pos ?h) (snd (write_string (PyBytes bs) s))))) = Inr bs"
    using assms c1 by (simp add: write_string_bytes seek_back)
  have v2: "fst (read_string2 (snd (self_seek (pos ?h) (snd (write_string2 (PyBytes bs) s))))) = Inr bs"
    if lt: "length bs < 65536"
  proof -
    let ?h2 = "snd (fwrite (be2 (length bs) @ bs) ?h)"
    have c2: "\<not> closed ?h2" "readable ?h2" using assms by (simp_all add: fwrite_fields)
    obtain rest2 where r2: "drop (pos ?h) (content ?h2) = (be2 (length bs) @ bs) @ rest2"
      using fwrite_at[OF assms(1,2)] by blast
    have "fst (read_string2 (s\<lparr>fileobj := (drain ?h2)\<lparr>pos := pos ?h\<rparr>\<rparr>)) = Inr bs"
      by (rule read_string2_at[where rest = rest2])
        (use c2 r2 lt in \<open>simp_all add: drain_fields pos_update_fields\<close>)
    then show ?thesis using assms c2 lt by (simp add: write_string2_bytes seek_back)
  qed
  show ?thesis using v1 v2 by (simp add: write_string2_text write_string2_refused)
qed

theorem string_roundtrip_witness:
  "\<not> closed (fileobj (unmapped [])) \<and> writable (fileobj (unmapped [])) \<and>
   readable (fileobj (unmapped [])) \<and>
   fst (read_string (snd (self_seek 0 (snd (write_string (PyBytes [97, 98, 99]) (unmapped []))))))
     = Inr [97, 98, 99] \<and>
   length [97, 98, 99 :: byte] < 65536 \<and>
   fst (read_string2 (snd (self_seek 0 (snd (write_string2 (PyBytes [97, 98, 99]) (unmapped []))))))
     = Inr [97, 98, 99] \<and>
   encode_utf8 [233] = Inr [195, 169] \<and>
   fst (read_string2 (snd (self_seek 0 (snd (write_string2 (PyStr [233]) (unmapped []))))))
     = Inr [195, 169] \<and>
   65536 \<le> length (replicate 70000 (97 :: byte)) \<and>
   write_string2 (PyBytes (replicate 70000 97)) (unmapped []) = (Inl StructError, unmapped []) \<and>
   encode_utf8 (replicate 70000 97) = Inr (replicate 70000 97) \<and>
   write_string2 (PyStr (replicate 70000 97)) (unmapped []) = (Inl StructError, unmapped [])"
proof -
  have e: "encode_utf8 (replicate n 97) = Inr (replicate n 97)" for n
    by (induction n) (simp_all add: utf8_char_def)
  have o: "\<not> closed (fileobj (unmapped []))" "writable (fileobj (unmapped []))"
    "readable (fileobj (unmapped []))"
    by (simp_all add: unmapped_open unmapped_writable unmapped_readable)
  show ?thesis
    using string_roundtrip[OF o, of "[97, 98, 99]" "[]"]
      string_roundtrip[OF o, of "[195, 169]" "[233]"]
      string_roundtrip[OF o, of "replicate 70000 97" "replicate 70000 97"] o e[of 70000]
    by (simp add: unmapped_pos utf8_char_def)
qed

text \<open>
  The claim as stated, for every string, fails for the second encoding: a bytes object
  of 65536 bytes is not written, and reading at that position does not return it.
\<close>

theorem string2_length_counterexample:
  "fst (write_string2 (PyBytes (replicate 65536 0)) (unmapped [])) = Inl StructError \<and>
   fst (read_string2 (snd (self_seek 0 (snd (write_string2 (PyBytes (replicate 65536 0)) (unmapped [])))))) 
     \<noteq> Inr (replicate 65536 0)"
  by (simp add: write_string2_def py_len_def pack_ushort_def unmapped_def setup_fake_map_def
      opened_def self_seek_def on_file_def fseek_def read_string2_def read_ushort_def readable_def
      read_unpacked_def USHORT_SIZE_def bind_r_def fread_def unpack_ushort_def drain_def Let_def)

section \<open>The guarded integer read\<close>

lemma unpack_int_value:
  "\<exists>v. unpack_int [a, b, c, e] = Inr v \<and> - 2147483648 \<le> v \<and> v < 2147483648 \<and>
       v mod 4294967296 = 16777216 * uint a + 65536 * uint b + 256 * uint c + uint e"
proof -
  let ?n = "((unat a * 256 + unat b) * 256 + unat c) * 256 + unat e"
  let ?w = "word_of_nat ?n :: 32 word"
  have ba: "unat a < 256" and bb: "unat b < 256" and bc: "unat c < 256" and be: "unat e < 256"
    using unsigned_less[of a] unsigned_less[of b] unsigned_less[of c] unsigned_less[of e]
    by simp_all
  have "unat a * 256 + unat b < 65536" using ba bb by simp
  then have "(unat a * 256 + unat b) * 256 + unat c < 16777216" using bc by simp
  then have lt: "?n < 4294967296" using be by simp
  have u: "uint ?w = int ?n"
    using lt by (simp add: uint_nat unat_of_nat del: of_nat_add of_nat_mult)
  have "uint ?w = take_bit 32 (sint ?w)" using uint_sint[of ?w] by simp
  then have m: "sint ?w mod 4294967296 = int ?n" using u by (simp add: take_bit_eq_mod)
  have lo: "- 2147483648 \<le> sint ?w" using sint_ge[of ?w] by simp
  have hi: "sint ?w < 2147483648" using sint_lt[of ?w] by simp
  have "int ?n = 16777216 * uint a + 65536 * uint b + 256 * uint c + uint e"
    by simp
  then show ?thesis using m lo hi by (simp add: unpack_int_def be_nat_def)
qed

lemma read_int_fst:
  assumes "\<not> closed (fileobj s)" "readable (fileobj s)"
  shows "fst (read_int s) =
           (let d = take 4 (drop (pos (fileobj s)) (content (fileobj s)))
            in if length d < 4
               then Inl (IOError (name s) (pos (fileobj s) + length d) d 4 (length d))
               else unpack_int d)"
proof -
  let ?h = "fileobj s"
  let ?d = "take 4 (drop (pos ?h) (content ?h))"
  have f: "fst (fread 4 ?h) = Inr ?d" using assms by (simp add: fread_fst)
  have p: "pos (snd (fread 4 ?h)) = pos ?h + length ?d" using assms by (simp add: fread_pos)
  have c: "\<not> closed (snd (fread 4 ?h))" using assms by (simp add: fread_fields)
  show ?thesis
    using f p c
    by (simp add: read_int_def INT_SIZE_def bind_r_alt fst_on_file snd_on_file self_tell_def
        ftell_def Let_def del: length_take)
qed

text \<open>
  Claim C4. On an open, readable handle with fewer than 4 bytes left after the cursor,
  \<^verbatim>\<open>read_int\<close> raises the \<^verbatim>\<open>IOError\<close> whose message carries the file name, the cursor
  position (after the short read), the bytes obtained, the expected count 4 and the
  count obtained. With at least 4 bytes \<open>a, b, c, e\<close> at the cursor it returns the
  big-endian signed 32-bit value: the one number in the signed 32-bit range that is
  congruent to \<open>a\<cdot>2\<^sup>2\<^sup>4 + b\<cdot>2\<^sup>1\<^sup>6 + c\<cdot>2\<^sup>8 + e\<close> modulo \<open>2\<^sup>3\<^sup>2\<close>.
\<close>

theorem read_int_truncation:
  assumes "\<not> closed (fileobj s)" "readable (fileobj s)"
  shows "(length (content (fileobj s)) - pos (fileobj s) < 4 \<longrightarrow>
            fst (read_int s) =
              Inl (IOError (name s) (pos (fileobj s) + (length (content (fileobj s)) - pos (fileobj s)))
                     (drop (pos (fileobj s)) (content (fileobj s))) 4
                     (length (content (fileobj s)) - pos (fileobj s))))
       \<and> (\<forall>a b c e rest. drop (pos (fileobj s)) (content (fileobj s)) = a # b # c # e # rest \<longrightarrow>
            (\<exists>v. fst (read_int s) = Inr v \<and> - 2147483648 \<le> v \<and> v < 2147483648 \<and>
                 v mod 4294967296 = 16777216 * uint a + 65536 * uint b + 256 * uint c + uint e))"
proof (intro conjI impI allI)
  assume "length (content (fileobj s)) - pos (fileobj s) < 4"
  then show "fst (read_int s) =
      Inl (IOError (name s) (pos (fileobj s) + (length (content (fileobj s)) - pos (fileobj s)))
             (drop (pos (fileobj s)) (content (fileobj s))) 4
             (length (content (fileobj s)) - pos (fileobj s)))"
    using assms by (simp add: read_int_fst min_def)
next
  fix a b c e rest
  assume d: "drop (pos (fileobj s)) (content (fileobj s)) = a # b # c # e # rest"
  have "fst (read_int s) = unpack_int [a, b, c, e]"
    using assms d by (simp add: read_int_fst)
  then show "\<exists>v. fst (read_int s) = Inr v \<and> - 2147483648 \<le> v \<and> v < 2147483648 \<and>
       v mod 4294967296 = 16777216 * uint a + 65536 * uint b + 256 * uint c + uint e"
    using unpack_int_value[of a b c e] by simp
qed

theorem read_int_truncation_witness:
  "\<not> closed (fileobj (unmapped [0, 0, 1])) \<and> readable (fileobj (unmapped [0, 0, 1])) \<and>
   fst (read_int (unmapped [0, 0, 1])) = Inl (IOError None 3 [0, 0, 1] 4 3) \<and>
   \<not> closed (fileobj (unmapped [255, 255, 255, 254])) \<and>
   readable (fileobj (unmapped [255, 255, 255, 254])) \<and>
   fst (read_int (unmapped [255, 255, 255, 254])) = Inr (- 2)"
proof -
  have short: "fst (read_int (unmapped [0, 0, 1])) = Inl (IOError None 3 [0, 0, 1] 4 3)"
    using read_int_truncation[OF unmapped_open[of "[0, 0, 1]"] unmapped_readable]
    by (simp add: unmapped_pos unmapped_content unmapped_name)
  have "drop (pos (fileobj (unmapped [255, 255, 255, 254])))
          (content (fileobj (unmapped [255, 255, 255, 254]))) = 255 # 255 # 255 # 254 # []"
    by (simp add: unmapped_pos unmapped_content)
  with read_int_truncation[OF unmapped_open[of "[255, 255, 255, 254]"] unmapped_readable]
  obtain v where v: "fst (read_int (unmapped [255, 255, 255, 254])) = Inr v"
    and lo: "- 2147483648 \<le> v" and hi: "v < 2147483648"
    and m: "v mod 4294967296 = 16777216 * uint (255 :: byte) + 65536 * uint (255 :: byte)
              + 256 * uint (255 :: byte) + uint (254 :: byte)"
    by blast
  from m have r: "v mod 4294967296 = 4294967294" by simp
  have "4294967296 * (v div 4294967296) + v mod 4294967296 = v"
    by (rule mult_div_mod_eq)
  with r have e: "v = 4294967296 * (v div 4294967296) + 4294967294" by simp
  have "v div 4294967296 = - 1" using e lo hi by linarith
  with e have "v = - 2" by simp
  with v short show ?thesis by (simp add: unmapped_open unmapped_readable)
qed

section \<open>Single bytes\<close>

lemma write_byte_int:
  "write_byte n s =
     (case bytes_of_int n of
        Inl e \<Rightarrow> (Inl e, s)
      | Inr bs \<Rightarrow> discard (on_file (fwrite bs) s))"
  by (simp add: write_byte_def write_byte_obj_def bytes_of_def)

lemma write_byte_appends:
  assumes "\<not> closed (fileobj s)" "writable (fileobj s)"
    "pos (fileobj s) = length (content (fileobj s))" "0 \<le> n"
  shows "content (fileobj (snd (write_byte n s))) = content (fileobj s) @ replicate (nat n) 0"
    and "pos (fileobj (snd (write_byte n s))) = pos (fileobj s) + nat n"
    and "closed (fileobj (snd (write_byte n s))) = closed (fileobj s)"
    and "readable (fileobj (snd (write_byte n s))) = readable (fileobj s)"
    and "fst (write_byte n s) = Inr ()"
  using assms
  by (simp_all add: write_byte_int bytes_of_int_def snd_discard fst_discard snd_on_file fst_on_file
      fwrite_def Let_def drain_def readable_def)

lemma read_byte_after_write_byte:
  assumes "\<not> closed (fileobj s)" "writable (fileobj s)" "readable (fileobj s)"
    "pos (fileobj s) = length (content (fileobj s))" "0 \<le> n"
  shows "fst (read_byte (snd (self_seek (pos (fileobj s)) (snd (write_byte n s))))) =
           (if n = 0 then Inl TypeError else Inr 0)"
proof -
  let ?s1 = "snd (write_byte n s)"
  let ?h2 = "(drain (fileobj ?s1))\<lparr>pos := pos (fileobj s)\<rparr>"
  have o: "\<not> closed (fileobj ?s1)" "readable (fileobj ?s1)"
    using assms by (simp_all add: write_byte_appends)
  have s2: "snd (self_seek (pos (fileobj s)) ?s1) = ?s1\<lparr>fileobj := ?h2\<rparr>"
    using o by (simp add: seek_back)
  have h2: "\<not> closed ?h2" "readable ?h2"
    using o by (simp_all add: drain_fields pos_update_fields)
  have "drop (pos ?h2) (content ?h2) = replicate (nat n) 0"
    using assms by (simp add: drain_fields write_byte_appends)
  then have "fst (fread 1 ?h2) = Inr (take 1 (replicate (nat n) 0))"
    using fread_fst[OF h2, of 1] by simp
  then have r: "fst (read_byte (?s1\<lparr>fileobj := ?h2\<rparr>)) = ord (PyBytes (take 1 (replicate (nat n) 0)))"
    by (simp add: read_byte_def bind_r_alt fst_on_file)
  have g: "fst (read_byte (snd (self_seek (pos (fileobj s)) ?s1))) =
             ord (PyBytes (take 1 (replicate (nat n) 0)))"
    using r by (simp only: s2)
  have e: "ord (PyBytes (take 1 (replicate (nat n) 0))) = (if n = 0 then Inl TypeError else Inr 0)"
  proof (cases "n = 0")
    case True
    then show ?thesis by (simp add: ord_def)
  next
    case False
    then have "0 < nat n" using assms(5) by simp
    then obtain k where k: "nat n = Suc k" by (cases "nat n") simp_all
    show ?thesis using False by (simp add: ord_def k)
  qed
  show ?thesis by (simp only: g e)
qed

text \<open>
  Claim C5 asks that \<^verbatim>\<open>write_byte(n)\<close> append exactly the byte \<open>n\<close> and that \<^verbatim>\<open>read_byte\<close>
  return \<open>n\<close>; the docstring of \<^verbatim>\<open>write_byte\<close> promises \<^verbatim>\<open>file.write(chr(n))\<close>. The code
  writes \<^verbatim>\<open>bytes(n)\<close>, which is \<open>n\<close> zero bytes. At the end of an open file that can be
  written and read, for every \<open>n \<ge> 0\<close>, the file grows by \<open>n\<close> zero bytes, and
  \<^verbatim>\<open>read_byte\<close> at the position of the write returns 0 when \<open>n > 0\<close> and raises
  \<^verbatim>\<open>TypeError\<close> when \<open>n = 0\<close> (nothing was written).
\<close>

theorem write_byte_zero_fill:
  assumes "\<not> closed (fileobj s)" "writable (fileobj s)" "readable (fileobj s)"
    "pos (fileobj s) = length (content (fileobj s))" "0 \<le> n"
  shows "content (fileobj (snd (write_byte n s))) = content (fileobj s) @ replicate (nat n) 0 \<and>
         fst (read_byte (snd (self_seek (pos (fileobj s)) (snd (write_byte n s))))) =
           (if n = 0 then Inl TypeError else Inr 0)"
  using assms read_byte_after_write_byte[OF assms] by (simp add: write_byte_appends)

theorem write_byte_zero_fill_witness:
  "\<not> closed (fileobj (unmapped [])) \<and> writable (fileobj (unmapped [])) \<and>
   readable (fileobj (unmapped [])) \<and>
   pos (fileobj (unmapped [])) = length (content (fileobj (unmapped []))) \<and>
   (0 :: int) \<le> 65 \<and>
   content (fileobj (snd (write_byte 65 (unmapped [])))) = replicate 65 0 \<and>
   fst (read_byte (snd (self_seek 0 (snd (write_byte 65 (unmapped [])))))) = Inr 0"
  using write_byte_zero_fill[of "unmapped []" 65]
  by (simp add: unmapped_open unmapped_writable unmapped_readable unmapped_pos unmapped_content)

section \<open>Construction\<close>

lemma init_unmapped: "init (opened c ''r+b'') None False False 0 os = Inr (unmapped c)"
  by (simp add: init_def unmapped_def)



lemma seek_closed: "closed (fileobj s) \<Longrightarrow> self_seek p s = (Inl ValueError, s)"
  by (simp add: self_seek_def on_file_def fseek_def)






section \<open>Random access and sequential access\<close>

lemma get_unpacked_fake:
  assumes "map_view s = Some Fakemap"
  shows "fst (get_unpacked p n u s) = fst (read_unpacked n u (snd (self_seek p s)))"
proof (cases "closed (fileobj s)")
  case True
  then show ?thesis
    using assms
    by (simp add: get_unpacked_def read_unpacked_def map_getslice_def fakemap_getslice_def
        bind_r_alt seek_closed fst_on_file fread_def)
next
  case False
  then show ?thesis
    using assms
    by (simp add: get_unpacked_def read_unpacked_def map_getslice_def fakemap_getslice_def
        bind_r_alt self_seek_def self_read_def fst_on_file fseek_def)
qed

lemma read_int_as_unpacked:
  assumes "closed (fileobj t) \<or> \<not> readable (fileobj t) \<or>
           pos (fileobj t) + 4 \<le> length (content (fileobj t))"
  shows "fst (read_int t) = fst (read_unpacked INT_SIZE unpack_int t)"
  using assms
  by (auto simp: read_int_def read_unpacked_def bind_r_alt fst_on_file fread_def INT_SIZE_def
      Let_def)

lemma seek_fields:
  "closed (fileobj (snd (self_seek p s))) = closed (fileobj s)"
  "readable (fileobj (snd (self_seek p s))) = readable (fileobj s)"
  "content (fileobj (snd (self_seek p s))) = content (fileobj s)"
  "\<not> closed (fileobj s) \<Longrightarrow> pos (fileobj (snd (self_seek p s))) = p"
  by (simp_all add: self_seek_def snd_on_file fseek_def drain_def readable_def)

lemma get_int_fake:
  assumes "map_view s = Some Fakemap"
    and "closed (fileobj s) \<or> \<not> readable (fileobj s) \<or> p + 4 \<le> length (content (fileobj s))"
  shows "fst (get_int p s) = fst (read_int (snd (self_seek p s)))"
proof -
  have "closed (fileobj (snd (self_seek p s))) \<or> \<not> readable (fileobj (snd (self_seek p s))) \<or>
        pos (fileobj (snd (self_seek p s))) + 4 \<le> length (content (fileobj (snd (self_seek p s))))"
    using assms(2) by (cases "closed (fileobj s)") (simp_all add: seek_fields)
  then show ?thesis
    using get_unpacked_fake[OF assms(1)] by (simp add: read_int_as_unpacked get_int_def)
qed

lemma get_unpacked_mmap:
  assumes "map_view s = Some (Mmap sz)"
  shows "fst (get_unpacked p n u s) = u (take n (drop p (take sz (disk (fileobj s)))))"
  using assms by (simp add: get_unpacked_def map_getslice_def mapped_bytes_def bind_r_alt)

lemma read_unpacked_after_seek:
  assumes "\<not> closed (fileobj s)" "readable (fileobj s)"
  shows "fst (read_unpacked n u (snd (self_seek p s))) = u (take n (drop p (content (fileobj s))))"
  using assms
  by (simp add: read_unpacked_def bind_r_alt fst_on_file seek_back fread_def Let_def drain_def
      readable_def)

lemma take_drop_take:
  "p + n \<le> sz \<or> length c \<le> sz \<Longrightarrow> take n (drop p (take sz c)) = take n (drop p c)"
  by (auto simp: drop_take min_def)

lemma get_unpacked_mmap_eq:
  assumes "map_view s = Some (Mmap sz)" "\<not> closed (fileobj s)" "readable (fileobj s)"
    "disk (fileobj s) = content (fileobj s)"
    "p + n \<le> sz \<or> length (content (fileobj s)) \<le> sz"
  shows "fst (get_unpacked p n u s) = fst (read_unpacked n u (snd (self_seek p s)))"
  using assms
  by (simp add: get_unpacked_mmap read_unpacked_after_seek take_drop_take)

lemma get_int_mmap:
  assumes "map_view s = Some (Mmap sz)" "\<not> closed (fileobj s)" "readable (fileobj s)"
    "disk (fileobj s) = content (fileobj s)"
    "p + 4 \<le> sz \<or> length (content (fileobj s)) \<le> sz"
    "p + 4 \<le> length (content (fileobj s))"
  shows "fst (get_int p s) = fst (read_int (snd (self_seek p s)))"
proof -
  have "pos (fileobj (snd (self_seek p s))) + 4 \<le> length (content (fileobj (snd (self_seek p s))))"
    using assms by (simp add: seek_fields)
  then have "fst (read_int (snd (self_seek p s))) =
             fst (read_unpacked INT_SIZE unpack_int (snd (self_seek p s)))"
    by (simp add: read_int_as_unpacked)
  then show ?thesis
    using get_unpacked_mmap_eq[OF assms(1-4), of p INT_SIZE unpack_int] assms(5)
    by (simp add: get_int_def INT_SIZE_def)
qed

text \<open>
  Claim C1, as amended. On the fake map, \<^verbatim>\<open>get_X(p)\<close> returns or raises exactly what
  \<^verbatim>\<open>seek(p)\<close> followed by \<^verbatim>\<open>read_X()\<close> returns or raises, for sbyte, uint, ushort, ulong,
  float and array at every offset and in every state of the handle, and for int when
  4 bytes follow the offset (or the handle is closed or not readable, where both raise
  the handle's error). On a real mapping of \<open>sz\<close> bytes the two agree when the handle is
  open and readable, no written bytes wait in its buffer, and the span of the value
  ends within the mapping or the file is no longer than the mapping; for int, again,
  when 4 bytes follow the offset.
\<close>

theorem get_equals_seek_read:
  "(map_view s = Some Fakemap \<longrightarrow>
      fst (get_sbyte p s) = fst (read_sbyte (snd (self_seek p s))) \<and>
      fst (get_uint p s) = fst (read_uint (snd (self_seek p s))) \<and>
      fst (get_ushort p s) = fst (read_ushort (snd (self_seek p s))) \<and>
      fst (get_ulong p s) = fst (read_ulong (snd (self_seek p s))) \<and>
      fst (get_float p s) = fst (read_float (snd (self_seek p s))) \<and>
      fst (get_array l p tc n s) = fst (read_array l tc n (snd (self_seek p s))) \<and>
      (closed (fileobj s) \<or> \<not> readable (fileobj s) \<or> p + 4 \<le> length (content (fileobj s)) \<longrightarrow>
         fst (get_int p s) = fst (read_int (snd (self_seek p s)))))
   \<and> (map_view s = Some (Mmap sz) \<and> \<not> closed (fileobj s) \<and> readable (fileobj s) \<and>
       disk (fileobj s) = content (fileobj s) \<longrightarrow>
      (p + 1 \<le> sz \<or> length (content (fileobj s)) \<le> sz \<longrightarrow>
         fst (get_sbyte p s) = fst (read_sbyte (snd (self_seek p s)))) \<and>
      (p + 2 \<le> sz \<or> length (content (fileobj s)) \<le> sz \<longrightarrow>
         fst (get_ushort p s) = fst (read_ushort (snd (self_seek p s)))) \<and>
      (p + 4 \<le> sz \<or> length (content (fileobj s)) \<le> sz \<longrightarrow>
         fst (get_uint p s) = fst (read_uint (snd (self_seek p s))) \<and>
         fst (get_ulong p s) = fst (read_ulong (snd (self_seek p s))) \<and>
         fst (get_float p s) = fst (read_float (snd (self_seek p s))) \<and>
         (p + 4 \<le> length (content (fileobj s)) \<longrightarrow>
            fst (get_int p s) = fst (read_int (snd (self_seek p s))))) \<and>
      (p + SIZEMAP l tc * n \<le> sz \<or> length (content (fileobj s)) \<le> sz \<longrightarrow>
         fst (get_array l p tc n s) = fst (read_array l tc n (snd (self_seek p s)))))"
proof (intro conjI impI)
  assume m: "map_view s = Some Fakemap"
  show "fst (get_sbyte p s) = fst (read_sbyte (snd (self_seek p s)))"
    by (simp add: get_sbyte_def read_sbyte_def get_unpacked_fake[OF m])
  show "fst (get_uint p s) = fst (read_uint (snd (self_seek p s)))"
    by (simp add: get_uint_def read_uint_def get_unpacked_fake[OF m])
  show "fst (get_ushort p s) = fst (read_ushort (snd (self_seek p s)))"
    by (simp add: get_ushort_def read_ushort_def get_unpacked_fake[OF m])
  show "fst (get_ulong p s) = fst (read_ulong (snd (self_seek p s)))"
    by (simp add: get_ulong_def read_ulong_def get_unpacked_fake[OF m])
  show "fst (get_float p s) = fst (read_float (snd (self_seek p s)))"
    by (simp add: get_float_def read_float_def get_unpacked_fake[OF m])
  show "fst (get_array l p tc n s) = fst (read_array l tc n (snd (self_seek p s)))"
    by (simp add: get_array_def read_array_def get_unpacked_fake[OF m])
  assume "closed (fileobj s) \<or> \<not> readable (fileobj s) \<or> p + 4 \<le> length (content (fileobj s))"
  then show "fst (get_int p s) = fst (read_int (snd (self_seek p s)))"
    by (rule get_int_fake[OF m])
next
  assume a: "map_view s = Some (Mmap sz) \<and> \<not> closed (fileobj s) \<and> readable (fileobj s) \<and>
       disk (fileobj s) = content (fileobj s)"
  assume "p + 1 \<le> sz \<or> length (content (fileobj s)) \<le> sz"
  then show "fst (get_sbyte p s) = fst (read_sbyte (snd (self_seek p s)))"
    using a by (simp add: get_sbyte_def read_sbyte_def get_unpacked_mmap_eq)
next
  assume a: "map_view s = Some (Mmap sz) \<and> \<not> closed (fileobj s) \<and> readable (fileobj s) \<and>
       disk (fileobj s) = content (fileobj s)"
  assume "p + 2 \<le> sz \<or> length (content (fileobj s)) \<le> sz"
  then show "fst (get_ushort p s) = fst (read_ushort (snd (self_seek p s)))"
    using a by (simp add: get_ushort_def read_ushort_def get_unpacked_mmap_eq USHORT_SIZE_def)
next
  assume a: "map_view s = Some (Mmap sz) \<and> \<not> closed (fileobj s) \<and> readable (fileobj s) \<and>
       disk (fileobj s) = content (fileobj s)"
  assume b: "p + 4 \<le> sz \<or> length (content (fileobj s)) \<le> sz"
  show "fst (get_uint p s) = fst (read_uint (snd (self_seek p s)))"
    using a b by (simp add: get_uint_def read_uint_def get_unpacked_mmap_eq INT_SIZE_def)
  show "fst (get_ulong p s) = fst (read_ulong (snd (self_seek p s)))"
    using a b by (simp add: get_ulong_def read_ulong_def get_unpacked_mmap_eq ULONG_SIZE_def)
  show "fst (get_float p s) = fst (read_float (snd (self_seek p s)))"
    using a b by (simp add: get_float_def read_float_def get_unpacked_mmap_eq FLOAT_SIZE_def)
  assume "p + 4 \<le> length (content (fileobj s))"
  then show "fst (get_int p s) = fst (read_int (snd (self_seek p s)))"
    using a b get_int_mmap by blast
next
  assume a: "map_view s = Some (Mmap sz) \<and> \<not> closed (fileobj s) \<and> readable (fileobj s) \<and>
       disk (fileobj s) = content (fileobj s)"
  assume "p + SIZEMAP l tc * n \<le> sz \<or> length (content (fileobj s)) \<le> sz"
  then show "fst (get_array l p tc n s) = fst (read_array l tc n (snd (self_seek p s)))"
    using a by (simp add: get_array_def read_array_def get_unpacked_mmap_eq)
qed

lemma get_int_example:
  "fst (get_int 2 (unmapped [9, 9, 255, 255, 255, 254, 9, 9])) = Inr (- 2)"
  "fst (get_int 2 (mmapped [9, 9, 255, 255, 255, 254, 9, 9])) = Inr (- 2)"
  by (simp_all add: get_int_def get_unpacked_def map_getslice_def fakemap_getslice_def
      mapped_bytes_def unmapped_def mmapped_def setup_fake_map_def opened_def INT_SIZE_def
      bind_r_def unpack_int_def self_seek_def self_read_def on_file_def fseek_def fread_def
      Let_def drain_def readable_def be_nat_def)

theorem get_equals_seek_read_witness:
  "map_view (unmapped [9, 9, 255, 255, 255, 254, 9, 9]) = Some Fakemap \<and>
   2 + 4 \<le> length (content (fileobj (unmapped [9, 9, 255, 255, 255, 254, 9, 9]))) \<and>
   fst (get_sbyte 2 (unmapped [9, 9, 255, 255, 255, 254, 9, 9])) =
     fst (read_sbyte (snd (self_seek 2 (unmapped [9, 9, 255, 255, 255, 254, 9, 9])))) \<and>
   fst (get_int 2 (unmapped [9, 9, 255, 255, 255, 254, 9, 9])) =
     fst (read_int (snd (self_seek 2 (unmapped [9, 9, 255, 255, 255, 254, 9, 9])))) \<and>
   fst (get_uint 2 (unmapped [9, 9, 255, 255, 255, 254, 9, 9])) =
     fst (read_uint (snd (self_seek 2 (unmapped [9, 9, 255, 255, 255, 254, 9, 9])))) \<and>
   fst (get_ushort 2 (unmapped [9, 9, 255, 255, 255, 254, 9, 9])) =
     fst (read_ushort (snd (self_seek 2 (unmapped [9, 9, 255, 255, 255, 254, 9, 9])))) \<and>
   fst (get_ulong 2 (unmapped [9, 9, 255, 255, 255, 254, 9, 9])) =
     fst (read_ulong (snd (self_seek 2 (unmapped [9, 9, 255, 255, 255, 254, 9, 9])))) \<and>
   fst (get_float 2 (unmapped [9, 9, 255, 255, 255, 254, 9, 9])) =
     fst (read_float (snd (self_seek 2 (unmapped [9, 9, 255, 255, 255, 254, 9, 9])))) \<and>
   fst (get_array 8 2 Code_h 2 (unmapped [9, 9, 255, 255, 255, 254, 9, 9])) =
     fst (read_array 8 Code_h 2 (snd (self_seek 2 (unmapped [9, 9, 255, 255, 255, 254, 9, 9])))) \<and>
   fst (get_int 2 (unmapped [9, 9, 255, 255, 255, 254, 9, 9])) = Inr (- 2) \<and>
   map_view (mmapped [9, 9, 255, 255, 255, 254, 9, 9]) = Some (Mmap 8) \<and>
   \<not> closed (fileobj (mmapped [9, 9, 255, 255, 255, 254, 9, 9])) \<and>
   readable (fileobj (mmapped [9, 9, 255, 255, 255, 254, 9, 9])) \<and>
   disk (fileobj (mmapped [9, 9, 255, 255, 255, 254, 9, 9])) = content (fileobj (mmapped [9, 9, 255, 255, 255, 254, 9, 9])) \<and>
   2 + SIZEMAP 8 Code_h * 2 \<le> 8 \<and>
   2 + 4 \<le> length (content (fileobj (mmapped [9, 9, 255, 255, 255, 254, 9, 9]))) \<and>
   fst (get_sbyte 2 (mmapped [9, 9, 255, 255, 255, 254, 9, 9])) =
     fst (read_sbyte (snd (self_seek 2 (mmapped [9, 9, 255, 255, 255, 254, 9, 9])))) \<and>
   fst (get_int 2 (mmapped [9, 9, 255, 255, 255, 254, 9, 9])) =
     fst (read_int (snd (self_seek 2 (mmapped [9, 9, 255, 255, 255, 254, 9, 9])))) \<and>
   fst (get_uint 2 (mmapped [9, 9, 255, 255, 255, 254, 9, 9])) =
     fst (read_uint (snd (self_seek 2 (mmapped [9, 9, 255, 255, 255, 254, 9, 9])))) \<and>
   fst (get_ushort 2 (mmapped [9, 9, 255, 255, 255, 254, 9, 9])) =
     fst (read_ushort (snd (self_seek 2 (mmapped [9, 9, 255, 255, 255, 254, 9, 9])))) \<and>
   fst (get_ulong 2 (mmapped [9, 9, 255, 255, 255, 254, 9, 9])) =
     fst (read_ulong (snd (self_seek 2 (mmapped [9, 9, 255, 255, 255, 254, 9, 9])))) \<and>
   fst (get_float 2 (mmapped [9, 9, 255, 255, 255, 254, 9, 9])) =
     fst (read_float (snd (self_seek 2 (mmapped [9, 9, 255, 255, 255, 254, 9, 9])))) \<and>
   fst (get_array 8 2 Code_h 2 (mmapped [9, 9, 255, 255, 255, 254, 9, 9])) =
     fst (read_array 8 Code_h 2 (snd (self_seek 2 (mmapped [9, 9, 255, 255, 255, 254, 9, 9])))) \<and>
   fst (get_int 2 (mmapped [9, 9, 255, 255, 255, 254, 9, 9])) = Inr (- 2)"
proof -
  let ?c = "[9, 9, 255, 255, 255, 254, 9, 9] :: byte list"
  have u: "map_view (unmapped ?c) = Some Fakemap"
    "2 + 4 \<le> length (content (fileobj (unmapped ?c)))"
    by (simp_all add: unmapped_def setup_fake_map_def opened_def)
  have m: "map_view (mmapped ?c) = Some (Mmap 8)" "\<not> closed (fileobj (mmapped ?c))"
    "readable (fileobj (mmapped ?c))" "disk (fileobj (mmapped ?c)) = content (fileobj (mmapped ?c))"
    "2 + 4 \<le> length (content (fileobj (mmapped ?c)))"
    by (simp_all add: mmapped_def opened_def readable_def)
  have z: "2 + SIZEMAP 8 Code_h * 2 \<le> 8" "(2::nat) + 1 \<le> 8" "(2::nat) + 2 \<le> 8"
    "(2::nat) + 4 \<le> 8"
    by (simp_all add: SIZEMAP_def)
  have a: "fst (get_sbyte 2 (unmapped ?c)) =
     fst (read_sbyte (snd (self_seek 2 (unmapped ?c)))) \<and>
   fst (get_int 2 (unmapped ?c)) =
     fst (read_int (snd (self_seek 2 (unmapped ?c)))) \<and>
   fst (get_uint 2 (unmapped ?c)) =
     fst (read_uint (snd (self_seek 2 (unmapped ?c)))) \<and>
   fst (get_ushort 2 (unmapped ?c)) =
     fst (read_ushort (snd (self_seek 2 (unmapped ?c)))) \<and>
   fst (get_ulong 2 (unmapped ?c)) =
     fst (read_ulong (snd (self_seek 2 (unmapped ?c)))) \<and>
   fst (get_float 2 (unmapped ?c)) =
     fst (read_float (snd (self_seek 2 (unmapped ?c)))) \<and>
   fst (get_array 8 2 Code_h 2 (unmapped ?c)) =
     fst (read_array 8 Code_h 2 (snd (self_seek 2 (unmapped ?c))))"
    using get_equals_seek_read[where s = "unmapped ?c" and p = 2 and l = 8 and tc = Code_h
        and n = 2 and sz = 8] u
    by blast
  have b: "fst (get_sbyte 2 (mmapped ?c)) =
     fst (read_sbyte (snd (self_seek 2 (mmapped ?c)))) \<and>
   fst (get_int 2 (mmapped ?c)) =
     fst (read_int (snd (self_seek 2 (mmapped ?c)))) \<and>
   fst (get_uint 2 (mmapped ?c)) =
     fst (read_uint (snd (self_seek 2 (mmapped ?c)))) \<and>
   fst (get_ushort 2 (mmapped ?c)) =
     fst (read_ushort (snd (self_seek 2 (mmapped ?c)))) \<and>
   fst (get_ulong 2 (mmapped ?c)) =
     fst (read_ulong (snd (self_seek 2 (mmapped ?c)))) \<and>
   fst (get_float 2 (mmapped ?c)) =
     fst (read_float (snd (self_seek 2 (mmapped ?c)))) \<and>
   fst (get_array 8 2 Code_h 2 (mmapped ?c)) =
     fst (read_array 8 Code_h 2 (snd (self_seek 2 (mmapped ?c))))"
    using get_equals_seek_read[where s = "mmapped ?c" and p = 2 and l = 8 and tc = Code_h
        and n = 2 and sz = 8] m z
    by blast
  show ?thesis using u m z a b get_int_example by blast
qed

text \<open>
  The claim as stated, for every offset within the file, fails in three ways. On a
  file opened in mode \<^verbatim>\<open>r+b\<close> and mapped at 4 bytes, \<^verbatim>\<open>write_int(9)\<close> at the start stays in
  the handle's buffer: \<^verbatim>\<open>get_int(0)\<close> returns the old value 1, \<^verbatim>\<open>seek(0)\<close> and \<^verbatim>\<open>read_int()\<close>
  the new value 9. When the same file grows to 8 bytes by a write that is flushed,
  offset 4 is in the file, \<^verbatim>\<open>read_int\<close> there returns 7, and \<^verbatim>\<open>get_int(4)\<close> raises
  \<^verbatim>\<open>struct.error\<close>, because the mapping still ends at 4. And where fewer than 4 bytes
  follow the offset, \<^verbatim>\<open>read_int\<close> raises its own \<^verbatim>\<open>IOError\<close>, \<^verbatim>\<open>get_int\<close> the
  \<^verbatim>\<open>struct.error\<close> of \<^verbatim>\<open>unpack\<close>.
\<close>

theorem get_int_stale_or_short_counterexample:
  "init (opened [0, 0, 0, 1] ''r+b'') None False True 0 Mapped = Inr (mmapped [0, 0, 0, 1]) \<and>
   fst (get_int 0 (snd (write_int 9 (mmapped [0, 0, 0, 1])))) = Inr 1 \<and>
   fst (read_int (snd (self_seek 0 (snd (write_int 9 (mmapped [0, 0, 0, 1])))))) = Inr 9 \<and>
   content (fileobj (snd (flush (snd (write_int 7 (snd (self_seek 4 (mmapped [0, 0, 0, 1]))))))))
     = [0, 0, 0, 1, 0, 0, 0, 7] \<and>
   disk (fileobj (snd (flush (snd (write_int 7 (snd (self_seek 4 (mmapped [0, 0, 0, 1]))))))))
     = [0, 0, 0, 1, 0, 0, 0, 7] \<and>
   fst (get_int 4 (snd (flush (snd (write_int 7 (snd (self_seek 4 (mmapped [0, 0, 0, 1]))))))))
     = Inl StructError \<and>
   fst (read_int (snd (self_seek 4
          (snd (flush (snd (write_int 7 (snd (self_seek 4 (mmapped [0, 0, 0, 1])))))))))) = Inr 7 \<and>
   fst (get_int 0 (unmapped [1, 2])) = Inl StructError \<and>
   fst (read_int (snd (self_seek 0 (unmapped [1, 2])))) = Inl (IOError None 2 [1, 2] 4 2)"
proof -
  let ?w = "snd (write_int 9 (mmapped [0, 0, 0, 1]))"
  have w: "?w = (mmapped [0, 0, 0, 1])\<lparr>fileobj :=
                  (opened [0, 0, 0, 1] ''r+b'')\<lparr>content := [0, 0, 0, 9], pos := 4\<rparr>\<rparr>"
    by (simp add: write_int_def write_packed_def pack_int_def pack_signed_def be4_def discard_def
        bind_r_def on_file_def fwrite_def mmapped_def opened_def writable_def Let_def)
  have 1: "fst (get_int 0 ?w) = Inr 1"
    by (simp only: w)
      (simp add: get_int_def get_unpacked_def map_getslice_def mapped_bytes_def mmapped_def
        opened_def INT_SIZE_def bind_r_def unpack_int_def be_nat_def)
  have 2: "fst (read_int (snd (self_seek 0 ?w))) = Inr 9"
    by (simp only: w)
      (simp add: read_int_def self_seek_def on_file_def fseek_def fread_def mmapped_def opened_def
        INT_SIZE_def bind_r_def unpack_int_def be_nat_def Let_def drain_def readable_def)
  let ?g = "snd (flush (snd (write_int 7 (snd (self_seek 4 (mmapped [0, 0, 0, 1]))))))"
  have g: "?g = (mmapped [0, 0, 0, 1])\<lparr>fileobj :=
                  (opened [0, 0, 0, 1, 0, 0, 0, 7] ''r+b'')\<lparr>pos := 8, flushed := 1\<rparr>\<rparr>"
    by (simp add: write_int_def write_packed_def pack_int_def pack_signed_def be4_def discard_def
        bind_r_def on_file_def self_seek_def fseek_def fwrite_def flush_def fflush_def drain_def
        mmapped_def opened_def writable_def Let_def)
  have 3: "content (fileobj ?g) = [0, 0, 0, 1, 0, 0, 0, 7]"
    "disk (fileobj ?g) = [0, 0, 0, 1, 0, 0, 0, 7]"
    by (simp_all only: g) (simp_all add: opened_def)
  have 4: "fst (get_int 4 ?g) = Inl StructError"
    by (simp only: g)
      (simp add: get_int_def get_unpacked_def map_getslice_def mapped_bytes_def mmapped_def
        opened_def INT_SIZE_def bind_r_def unpack_int_def)
  have 5: "fst (read_int (snd (self_seek 4 ?g))) = Inr 7"
    by (simp only: g)
      (simp add: read_int_def self_seek_def on_file_def fseek_def fread_def mmapped_def opened_def
        INT_SIZE_def bind_r_def unpack_int_def be_nat_def Let_def drain_def readable_def)
  have 6: "fst (get_int 0 (unmapped [1, 2])) = Inl StructError"
    by (simp add: get_int_def get_unpacked_def map_getslice_def fakemap_getslice_def unmapped_def
        setup_fake_map_def opened_def INT_SIZE_def bind_r_def unpack_int_def self_seek_def
        self_read_def on_file_def fseek_def fread_def Let_def drain_def readable_def)
  have 7: "fst (read_int (snd (self_seek 0 (unmapped [1, 2])))) = Inl (IOError None 2 [1, 2] 4 2)"
    by (simp add: read_int_def self_seek_def self_tell_def ftell_def on_file_def fseek_def
        fread_def unmapped_def setup_fake_map_def opened_def INT_SIZE_def bind_r_def Let_def
        drain_def readable_def)
  have 0: "init (opened [0, 0, 0, 1] ''r+b'') None False True 0 Mapped = Inr (mmapped [0, 0, 0, 1])"
    by (simp add: init_def mmapped_def read_mode_def opened_def)
  show ?thesis using 0 1 2 3 4 5 6 7 by simp
qed

section \<open>What an operation leaves alone\<close>

lemma snd_bind_r:
  "snd (bind_r m k) = (case fst m of Inl e \<Rightarrow> snd m | Inr a \<Rightarrow> snd (k a (snd m)))"
  by (simp add: bind_r_alt split: sum.splits)

lemma kept_refl: "kept s s"
  by (simp add: kept_def)

lemma kept_trans: "kept s s' \<Longrightarrow> kept s' s'' \<Longrightarrow> kept s s''"
  by (simp add: kept_def)

lemma kept_bind:
  "kept s (snd m) \<Longrightarrow> (\<And>a. kept (snd m) (snd (k a (snd m)))) \<Longrightarrow> kept s (snd (bind_r m k))"
  by (auto simp: snd_bind_r split: sum.splits intro: kept_trans)

lemma kept_fread: "kept s (snd (on_file (fread n) s))"
  by (simp add: kept_def snd_on_file fread_def Let_def drain_def)

lemma kept_fread_all: "kept s (snd (on_file fread_all s))"
  by (simp add: kept_def snd_on_file fread_all_def Let_def drain_def)

lemma kept_fseek: "kept s (snd (on_file (fseek p) s))"
  by (simp add: kept_def snd_on_file fseek_def drain_def)

lemma kept_fseek_cur: "kept s (snd (on_file (fseek_cur p) s))"
  by (simp add: kept_def snd_on_file fseek_cur_def drain_def)

lemma kept_ftell: "kept s (snd (on_file ftell s))"
  by (simp add: kept_def snd_on_file ftell_def)

lemma kept_fflush: "kept s (snd (on_file fflush s))"
  by (simp add: kept_def snd_on_file fflush_def drain_def)

lemma kept_read_varint: "kept s (snd (on_file util_read_varint s))"
  by (simp add: kept_def snd_on_file util_read_varint_def drain_def split: prod.splits)

lemma kept_fwrite: "kept s (snd (on_file (fwrite bs) s))"
  by (simp add: kept_def snd_on_file fwrite_def Let_def drain_def)

lemmas kept_prims = kept_refl kept_fread kept_fread_all kept_fseek kept_fseek_cur kept_ftell
  kept_fflush kept_read_varint kept_fwrite

lemma kept_read_unpacked: "kept s (snd (read_unpacked n u s))"
  by (simp add: read_unpacked_def kept_bind kept_prims)

lemma kept_map_getslice: "kept s (snd (map_getslice a b s))"
  by (auto simp: map_getslice_def fakemap_getslice_def self_seek_def self_read_def
      split: option.splits map_kind.splits intro!: kept_bind kept_prims)

lemma kept_map_getitem: "kept s (snd (map_getitem i s))"
  by (auto simp: map_getitem_def fakemap_getitem_def self_seek_def self_read_def
      split: option.splits map_kind.splits intro!: kept_bind kept_prims)

lemma kept_get_unpacked: "kept s (snd (get_unpacked p n u s))"
  by (auto simp: get_unpacked_def intro!: kept_bind kept_map_getslice kept_prims)

lemma kept_write_packed: "kept s (snd (write_packed p s))"
  by (auto simp: write_packed_def snd_discard split: sum.splits intro: kept_refl kept_fwrite)

lemma kept_write_varint: "kept s (snd (write_varint n s))"
  by (simp add: write_varint_def snd_discard kept_fwrite)

lemma kept_write_byte_obj: "kept s (snd (write_byte_obj v s))"
  by (auto simp: write_byte_obj_def snd_discard split: sum.splits intro: kept_refl kept_fwrite)

lemma kept_write_string: "kept s (snd (write_string v s))"
  by (auto simp: write_string_def snd_discard split: sum.splits pyval.splits
      intro!: kept_bind kept_refl kept_fwrite kept_write_varint)

lemma kept_write_string2: "kept s (snd (write_string2 v s))"
  by (auto simp: write_string2_def self_write_def snd_discard split: sum.splits pyval.splits
      intro!: kept_refl kept_fwrite)

lemma kept_step: "x \<noteq> Op_close \<Longrightarrow> kept s (step l x s)"
proof (cases x)
qed (auto simp: flush_def self_read_def self_tell_def self_seek_def self_write_def
      read_string_def read_string2_def skip_string_def read_varint_def read_byte_def get_byte_def
      read_8bitfloat_def read_pickle_def read_sbyte_def read_int_def read_uint_def read_ushort_def
      read_ulong_def read_float_def read_array_def get_sbyte_def get_int_def get_uint_def
      get_ushort_def get_ulong_def get_float_def get_array_def discard_def
      write_8bitfloat_def write_byte_def write_pickle_def write_sbyte_def
      write_int_def write_uint_def write_ushort_def write_ulong_def write_float_def
      write_array_def snd_discard
      intro!: kept_bind kept_prims kept_read_unpacked kept_get_unpacked kept_map_getitem
        kept_map_getslice kept_write_packed kept_write_varint kept_write_byte_obj
        kept_write_string kept_write_string2)

section \<open>Closing\<close>

lemma close_gone: "map_view s = None \<Longrightarrow> close s = (Inl AttributeError, s)"
  by (simp add: close_def)

lemma close_present:
  "map_view s \<noteq> None \<Longrightarrow>
   close s =
     (Inr (),
      s\<lparr>map_view := None,
        hook_log := hook_log s @ (if onclose s then [ident s] else []),
        fileobj := (if has_close (fileobj s) then fclose (fileobj s) else fileobj s),
        is_closed := True\<rparr>)"
  by (auto simp: close_def Let_def)

lemma is_closed_step: "is_closed s \<Longrightarrow> is_closed (step l x s)"
proof (cases "x = Op_close")
  case True
  assume "is_closed s"
  then show ?thesis using True by (cases "map_view s") (simp_all add: close_gone close_present)
next
  case False
  assume "is_closed s"
  then show ?thesis using kept_step[OF False, of s l] by (simp add: kept_def)
qed

lemma instance_step: "ident (step l x s) = ident s \<and> onclose (step l x s) = onclose s"
proof (cases "x = Op_close")
  case True
  then show ?thesis by (cases "map_view s") (simp_all add: close_gone close_present)
next
  case False
  then show ?thesis using kept_step[OF False, of s l] by (simp add: kept_def)
qed

lemma instance_run: "ident (run l xs s) = ident s \<and> onclose (run l xs s) = onclose s"
  by (induction xs arbitrary: s) (simp_all add: instance_step)

lemma lifecycle_step: "lifecycle s \<Longrightarrow> lifecycle (step l x s)"
proof (cases "x = Op_close")
  case True
  assume "lifecycle s"
  then show ?thesis
    using True by (cases "map_view s") (simp_all add: close_gone close_present lifecycle_def)
next
  case False
  assume "lifecycle s"
  then show ?thesis
    using kept_step[OF False, of s l] by (auto simp: kept_def lifecycle_def split: option.splits)
qed

lemma lifecycle_run: "lifecycle s \<Longrightarrow> lifecycle (run l xs s)"
  by (induction xs arbitrary: s) (simp_all add: lifecycle_step)

lemma init_fields:
  assumes "init f nm hook mapped i os = Inr s0"
  shows "lifecycle s0" "ident s0 = i" "onclose s0 = hook"
  using assms
  by (auto simp: init_def Let_def setup_fake_map_def lifecycle_def
      split: if_splits mmap_outcome.splits)

text \<open>
  Claim C7. Take an instance as the constructor returned it, after any sequence of
  operations, and not marked closed. Then \<^verbatim>\<open>close\<close> returns normally; the map was there
  and is gone afterwards; the close hook had not been called before and is called
  exactly once, with this instance, if one was registered, and not at all otherwise; the
  handle is closed if it has a \<^verbatim>\<open>close\<close> method and untouched if not; and the instance is
  marked closed. No operation makes an instance that is marked closed unmarked again.
\<close>

theorem close_is_terminal:
  assumes "init f nm hook mapped i os = Inr s0" "s = run l xs s0" "\<not> is_closed s"
  shows "fst (close s) = Inr () \<and>
         map_view s \<noteq> None \<and> map_view (snd (close s)) = None \<and>
         hook_log s = [] \<and> hook_log (snd (close s)) = (if hook then [i] else []) \<and>
         fileobj (snd (close s)) = (if has_close (fileobj s) then fclose (fileobj s) else fileobj s) \<and>
         is_closed (snd (close s)) \<and>
         (is_closed s' \<longrightarrow> is_closed (step l x s'))"
proof -
  have lc: "lifecycle s" using assms(1,2) by (simp add: init_fields lifecycle_run)
  have m: "map_view s \<noteq> None" and h: "hook_log s = []"
    using lc assms(3) by (auto simp: lifecycle_def split: option.splits)
  have io: "ident s = i" "onclose s = hook"
    using assms(1,2) by (simp_all add: instance_run init_fields)
  show ?thesis using m h io by (simp add: close_present is_closed_step)
qed

theorem close_is_terminal_witness:
  "\<exists>s0. init (opened [1, 2] ''rb'') None True True 7 Mapped = Inr s0 \<and>
        \<not> is_closed (run 8 [Op_seek 1, Op_read_byte] s0) \<and>
        fst (close (run 8 [Op_seek 1, Op_read_byte] s0)) = Inr () \<and>
        map_view (snd (close (run 8 [Op_seek 1, Op_read_byte] s0))) = None \<and>
        hook_log (snd (close (run 8 [Op_seek 1, Op_read_byte] s0))) = [7] \<and>
        closed (fileobj (snd (close (run 8 [Op_seek 1, Op_read_byte] s0)))) \<and>
        is_closed (snd (close (run 8 [Op_seek 1, Op_read_byte] s0))) \<and>
        is_closed (step 8 (Op_write_int 5) (snd (close (run 8 [Op_seek 1, Op_read_byte] s0))))"
proof -
  let ?z = "\<lparr>fileobj = opened [1, 2] ''rb'', name = None, onclose = True, is_closed = False,
              map_view = Some (Mmap 2), size_attr = Some 2, ident = 7, hook_log = []\<rparr>"
  let ?s = "run 8 [Op_seek 1, Op_read_byte] ?z"
  have i: "init (opened [1, 2] ''rb'') None True True 7 Mapped = Inr ?z"
    by (simp add: init_def read_mode_def opened_def)
  have k1: "kept ?z (step 8 (Op_seek 1) ?z)" by (rule kept_step) simp
  have k2: "kept (step 8 (Op_seek 1) ?z) (step 8 Op_read_byte (step 8 (Op_seek 1) ?z))"
    by (rule kept_step) simp
  have o: "\<not> is_closed ?s" and hc: "has_close (fileobj ?s)"
    using k1 k2 by (simp_all add: kept_def opened_def)
  have c: "is_closed (snd (close ?s))"
    using close_is_terminal[where s = "?s" and l = 8 and xs = "[Op_seek 1, Op_read_byte]", OF i refl o]
    by simp
  from close_is_terminal[where s = "?s" and l = 8 and xs = "[Op_seek 1, Op_read_byte]"
      and s' = "snd (close ?s)" and x = "Op_write_int 5", OF i refl o] c hc
  have "fst (close ?s) = Inr () \<and> map_view (snd (close ?s)) = None \<and>
        hook_log (snd (close ?s)) = [7] \<and> closed (fileobj (snd (close ?s))) \<and>
        is_closed (snd (close ?s)) \<and> is_closed (step 8 (Op_write_int 5) (snd (close ?s)))"
    by (simp add: fclose_def drain_def)
  with i o show ?thesis by blast
qed

text \<open>
  Claim C10. Take an instance as the constructor returned it, after any sequence of
  operations. The close hook has been called at most once. If the instance is marked
  closed, \<^verbatim>\<open>close\<close> raises \<^verbatim>\<open>AttributeError\<close> and leaves every part of the state as it was:
  the hook is not called again and the handle is not closed again.
\<close>

theorem second_close_raises:
  assumes "init f nm hook mapped i os = Inr s0" "s = run l xs s0"
  shows "length (hook_log s) \<le> 1 \<and> (is_closed s \<longrightarrow> close s = (Inl AttributeError, s))"
proof -
  have lc: "lifecycle s" using assms by (simp add: init_fields lifecycle_run)
  then show ?thesis by (auto simp: lifecycle_def close_gone split: option.splits)
qed

theorem second_close_raises_witness:
  "\<exists>s0. init (opened [1, 2] ''rb'') None True True 7 Mapped = Inr s0 \<and>
        is_closed (run 8 [Op_read_byte, Op_close] s0) \<and>
        close (run 8 [Op_read_byte, Op_close] s0) =
          (Inl AttributeError, run 8 [Op_read_byte, Op_close] s0) \<and>
        length (hook_log (run 8 [Op_read_byte, Op_close, Op_close, Op_close] s0)) \<le> 1"
proof -
  let ?z = "\<lparr>fileobj = opened [1, 2] ''rb'', name = None, onclose = True, is_closed = False,
              map_view = Some (Mmap 2), size_attr = Some 2, ident = 7, hook_log = []\<rparr>"
  let ?s = "run 8 [Op_read_byte, Op_close] ?z"
  have i: "init (opened [1, 2] ''rb'') None True True 7 Mapped = Inr ?z"
    by (simp add: init_def read_mode_def opened_def)
  have k1: "kept ?z (step 8 Op_read_byte ?z)" by (rule kept_step) simp
  then have "map_view (step 8 Op_read_byte ?z) \<noteq> None" by (simp add: kept_def)
  then have c: "is_closed ?s" by (simp add: close_present)
  from second_close_raises[where l = 8 and xs = "[Op_read_byte, Op_close]", OF i refl] c
  have 1: "close ?s = (Inl AttributeError, ?s)" by blast
  from second_close_raises[where l = 8 and xs = "[Op_read_byte, Op_close, Op_close, Op_close]",
      OF i refl]
  have 2: "length (hook_log (run 8 [Op_read_byte, Op_close, Op_close, Op_close] ?z)) \<le> 1"
    by blast
  from i c 1 2 show ?thesis by blast
qed

section \<open>The mapped view and the sequential cursor\<close>

lemma fake_slice_cursor:
  assumes "map_view s = Some Fakemap" "\<not> closed (fileobj s)" "readable (fileobj s)" "a \<le> b"
  shows "fst (self_tell (snd (map_getslice a b s))) =
           Inr (a + length (take (b - a) (drop a (content (fileobj s)))))"
  using assms
  by (simp add: map_getslice_def fakemap_getslice_def self_seek_def self_read_def self_tell_def
      snd_bind_r fst_on_file snd_on_file fseek_def fread_def ftell_def Let_def drain_def
      readable_def)

lemma fake_item_cursor:
  assumes "map_view s = Some Fakemap" "\<not> closed (fileobj s)" "readable (fileobj s)"
  shows "fst (self_tell (snd (map_getitem p s))) =
           Inr (p + length (take 1 (drop p (content (fileobj s)))))"
  using assms
  by (simp add: map_getitem_def fakemap_getitem_def self_seek_def self_read_def self_tell_def
      snd_bind_r fst_on_file snd_on_file fseek_def fread_def ftell_def Let_def drain_def
      readable_def bind_r_alt)

lemma fake_get_cursor:
  assumes "map_view s = Some Fakemap" "\<not> closed (fileobj s)" "readable (fileobj s)"
  shows "fst (self_tell (snd (get_unpacked p n u s))) =
           Inr (p + length (take n (drop p (content (fileobj s)))))"
proof -
  have "snd (get_unpacked p n u s) = snd (map_getslice p (p + n) s)"
    by (simp add: get_unpacked_def snd_bind_r split: sum.splits)
  then show ?thesis using fake_slice_cursor[OF assms, of p "p + n"] by simp
qed

lemma fake_get_byte_cursor:
  assumes "map_view s = Some Fakemap" "\<not> closed (fileobj s)" "readable (fileobj s)"
  shows "fst (self_tell (snd (get_byte p s))) =
           Inr (p + length (take 1 (drop p (content (fileobj s)))))"
proof -
  have "snd (get_byte p s) = snd (map_getitem p s)"
    by (simp add: get_byte_def snd_bind_r split: sum.splits)
  then show ?thesis using fake_item_cursor[OF assms, of p] by simp
qed

lemma mmap_get_state:
  assumes "map_view s = Some (Mmap sz)"
  shows "snd (get_unpacked p n u s) = s" "snd (get_byte p s) = s"
    "snd (map_getslice a b s) = s" "snd (map_getitem p s) = s"
  using assms
  by (simp_all add: get_unpacked_def get_byte_def map_getslice_def map_getitem_def bind_r_def)

text \<open>
  Claim C8 asks that an access to the mapped view leave the sequential cursor where it
  was, on both paths. The code does so on a real mapping only: there every access
  leaves the whole state as it was. The fake map implements an access as \<^verbatim>\<open>_self.seek\<close>
  and \<^verbatim>\<open>_self.read\<close> on the one handle the instance has and does not restore the cursor,
  so on an open, readable handle \<^verbatim>\<open>tell()\<close> afterwards is the accessed offset plus the
  number of bytes read.
\<close>

theorem mapped_access_moves_cursor:
  "(map_view s = Some Fakemap \<and> \<not> closed (fileobj s) \<and> readable (fileobj s) \<longrightarrow>
      fst (self_tell (snd (map_getitem p s)))
        = Inr (p + length (take 1 (drop p (content (fileobj s))))) \<and>
      (a \<le> b \<longrightarrow> fst (self_tell (snd (map_getslice a b s)))
        = Inr (a + length (take (b - a) (drop a (content (fileobj s)))))) \<and>
      fst (self_tell (snd (get_byte p s)))
        = Inr (p + length (take 1 (drop p (content (fileobj s))))) \<and>
      fst (self_tell (snd (get_sbyte p s)))
        = Inr (p + length (take 1 (drop p (content (fileobj s))))) \<and>
      fst (self_tell (snd (get_int p s)))
        = Inr (p + length (take 4 (drop p (content (fileobj s))))) \<and>
      fst (self_tell (snd (get_uint p s)))
        = Inr (p + length (take 4 (drop p (content (fileobj s))))) \<and>
      fst (self_tell (snd (get_ushort p s)))
        = Inr (p + length (take 2 (drop p (content (fileobj s))))) \<and>
      fst (self_tell (snd (get_ulong p s)))
        = Inr (p + length (take 4 (drop p (content (fileobj s))))) \<and>
      fst (self_tell (snd (get_float p s)))
        = Inr (p + length (take 4 (drop p (content (fileobj s))))) \<and>
      fst (self_tell (snd (get_array l p tc n s)))
        = Inr (p + length (take (SIZEMAP l tc * n) (drop p (content (fileobj s))))))
   \<and> (map_view s = Some (Mmap sz) \<longrightarrow>
      snd (map_getitem p s) = s \<and> snd (map_getslice a b s) = s \<and> snd (get_byte p s) = s \<and>
      snd (get_sbyte p s) = s \<and> snd (get_int p s) = s \<and> snd (get_uint p s) = s \<and>
      snd (get_ushort p s) = s \<and> snd (get_ulong p s) = s \<and> snd (get_float p s) = s \<and>
      snd (get_array l p tc n s) = s)"
proof (intro conjI impI)
  assume a: "map_view s = Some Fakemap \<and> \<not> closed (fileobj s) \<and> readable (fileobj s)"
  then have m: "map_view s = Some Fakemap" and c: "\<not> closed (fileobj s)"
    and r: "readable (fileobj s)"
    by simp_all
  show "fst (self_tell (snd (map_getitem p s)))
        = Inr (p + length (take 1 (drop p (content (fileobj s)))))"
    by (rule fake_item_cursor[OF m c r])
  show "fst (self_tell (snd (get_byte p s)))
        = Inr (p + length (take 1 (drop p (content (fileobj s)))))"
    by (rule fake_get_byte_cursor[OF m c r])
  show "fst (self_tell (snd (get_sbyte p s)))
        = Inr (p + length (take 1 (drop p (content (fileobj s)))))"
    using fake_get_cursor[OF m c r] by (simp add: get_sbyte_def)
  show "fst (self_tell (snd (get_int p s)))
        = Inr (p + length (take 4 (drop p (content (fileobj s)))))"
    using fake_get_cursor[OF m c r, of p INT_SIZE] by (simp add: get_int_def INT_SIZE_def)
  show "fst (self_tell (snd (get_uint p s)))
        = Inr (p + length (take 4 (drop p (content (fileobj s)))))"
    using fake_get_cursor[OF m c r, of p INT_SIZE] by (simp add: get_uint_def INT_SIZE_def)
  show "fst (self_tell (snd (get_ushort p s)))
        = Inr (p + length (take 2 (drop p (content (fileobj s)))))"
    using fake_get_cursor[OF m c r, of p USHORT_SIZE]
    by (simp add: get_ushort_def USHORT_SIZE_def)
  show "fst (self_tell (snd (get_ulong p s)))
        = Inr (p + length (take 4 (drop p (content (fileobj s)))))"
    using fake_get_cursor[OF m c r, of p ULONG_SIZE] by (simp add: get_ulong_def ULONG_SIZE_def)
  show "fst (self_tell (snd (get_float p s)))
        = Inr (p + length (take 4 (drop p (content (fileobj s)))))"
    using fake_get_cursor[OF m c r, of p FLOAT_SIZE] by (simp add: get_float_def FLOAT_SIZE_def)
  show "fst (self_tell (snd (get_array l p tc n s)))
        = Inr (p + length (take (SIZEMAP l tc * n) (drop p (content (fileobj s)))))"
    using fake_get_cursor[OF m c r] by (simp add: get_array_def)
  assume "a \<le> b"
  then show "fst (self_tell (snd (map_getslice a b s)))
        = Inr (a + length (take (b - a) (drop a (content (fileobj s)))))"
    by (rule fake_slice_cursor[OF m c r])
next
  assume m: "map_view s = Some (Mmap sz)"
  show "snd (map_getitem p s) = s" "snd (map_getslice a b s) = s" "snd (get_byte p s) = s"
    by (simp_all add: mmap_get_state[OF m])
  show "snd (get_sbyte p s) = s" "snd (get_int p s) = s" "snd (get_uint p s) = s"
    "snd (get_ushort p s) = s" "snd (get_ulong p s) = s" "snd (get_float p s) = s"
    "snd (get_array l p tc n s) = s"
    by (simp_all add: get_sbyte_def get_int_def get_uint_def get_ushort_def get_ulong_def
        get_float_def get_array_def mmap_get_state[OF m])
qed

theorem mapped_access_moves_cursor_witness:
  "map_view (unmapped [0, 0, 0, 7, 9]) = Some Fakemap \<and>
   \<not> closed (fileobj (unmapped [0, 0, 0, 7, 9])) \<and>
   readable (fileobj (unmapped [0, 0, 0, 7, 9])) \<and>
   fst (self_tell (unmapped [0, 0, 0, 7, 9])) = Inr 0 \<and>
   fst (get_int 0 (unmapped [0, 0, 0, 7, 9])) = Inr 7 \<and>
   fst (self_tell (snd (get_int 0 (unmapped [0, 0, 0, 7, 9])))) = Inr 4 \<and>
   fst (self_tell (snd (get_byte 4 (unmapped [0, 0, 0, 7, 9])))) = Inr 5 \<and>
   fst (self_tell (snd (map_getslice 1 3 (unmapped [0, 0, 0, 7, 9])))) = Inr 3 \<and>
   map_view (mmapped [0, 0, 0, 7, 9]) = Some (Mmap 5) \<and>
   fst (get_int 0 (mmapped [0, 0, 0, 7, 9])) = Inr 7 \<and>
   fst (self_tell (snd (get_int 0 (mmapped [0, 0, 0, 7, 9])))) = Inr 0"
proof -
  let ?u = "unmapped [0, 0, 0, 7, 9]"
  let ?m = "mmapped [0, 0, 0, 7, 9]"
  have h: "map_view ?u = Some Fakemap" "\<not> closed (fileobj ?u)" "readable (fileobj ?u)"
    "content (fileobj ?u) = [0, 0, 0, 7, 9]"
    by (simp_all add: unmapped_def setup_fake_map_def opened_def readable_def)
  have t: "fst (self_tell ?u) = Inr 0" "fst (self_tell ?m) = Inr 0"
    by (simp_all add: self_tell_def on_file_def ftell_def unmapped_def mmapped_def
        setup_fake_map_def opened_def)
  have g: "fst (get_int 0 ?u) = Inr 7" "fst (get_int 0 ?m) = Inr 7"
    by (simp_all add: get_int_def get_unpacked_def map_getslice_def fakemap_getslice_def
        mapped_bytes_def unmapped_def mmapped_def setup_fake_map_def opened_def INT_SIZE_def
        bind_r_def unpack_int_def self_seek_def self_read_def on_file_def fseek_def fread_def
        Let_def drain_def readable_def be_nat_def)
  have k: "map_view ?m = Some (Mmap 5)" by (simp add: mmapped_def)
  have 1: "fst (self_tell (snd (get_int 0 ?u))) = Inr 4"
    "fst (self_tell (snd (get_byte 4 ?u))) = Inr 5"
    using mapped_access_moves_cursor[where s = "?u" and p = 0 and a = 1 and b = 3 and l = 8
        and tc = Code_h and n = 1 and sz = 5]
      mapped_access_moves_cursor[where s = "?u" and p = 4 and a = 1 and b = 3 and l = 8
        and tc = Code_h and n = 1 and sz = 5] h
    by simp_all
  have 2: "fst (self_tell (snd (map_getslice 1 3 ?u))) = Inr 3"
    using mapped_access_moves_cursor[where s = "?u" and p = 0 and a = 1 and b = 3 and l = 8
        and tc = Code_h and n = 1 and sz = 5] h
    by simp
  have 3: "fst (self_tell (snd (get_int 0 ?m))) = Inr 0"
    using mapped_access_moves_cursor[where s = "?m" and p = 0 and a = 1 and b = 3 and l = 8
        and tc = Code_h and n = 1 and sz = 5] k t
    by simp
  show ?thesis using h t g k 1 2 3 by simp
qed

end
